theory Spec2Isabelle
  imports Complex_Main
begin

section \<open>JavaScript values used by zklogin.js\<close>

text \<open>
  Strings are byte lists; configuration strings and tokens are taken to be ASCII, where
  JavaScript's code units and the bytes of the UTF-8 encoding coincide.

  \<open>json\<close> is what \<^verbatim>\<open>JSON.parse\<close> can return. An object keeps its members in source
  order; when a key occurs twice the later member wins, as in \<^verbatim>\<open>JSON.parse\<close>.
  \<open>JNum x\<close> stands for the number whose value is \<open>x\<close>.
\<close>

datatype json =
    JNull
  | JBool bool
  | JNum real
  | JStr string
  | JArr "json list"
  | JObj "(string \<times> json) list"

text \<open>
  The result of reading a property: \<^verbatim>\<open>undefined\<close>, a value that came out of the
  parsed JSON, or a function inherited from a prototype.
\<close>

datatype jsval = Undefined | Val json | Builtin string

text \<open>
  Numbers that hold epochs: the integer-valued IEEE doubles, the two infinities and NaN.
  In \<open>Num n\<close> the integer \<open>n\<close> is a double: it has at most 53 significant bits and its
  magnitude is below \<open>2^1024\<close>. \<^verbatim>\<open>parseInt\<close> returns such a number, or NaN for a string
  without leading digits. The configured window \<^verbatim>\<open>config.maxEpoch\<close> is taken to be
  integer-valued as well.
\<close>

datatype jsnum = Num int | NaN | PosInf | NegInf

text \<open>The number of binary digits of \<open>m\<close>.\<close>

fun bitlen :: "nat \<Rightarrow> nat" where
  "bitlen m = (if m = 0 then 0 else Suc (bitlen (m div 2)))"

declare bitlen.simps [simp del]

text \<open>
  Rounding a natural number to 53 significant bits, to nearest and ties to even, as
  IEEE 754 does: below \<open>2^53\<close> nothing is lost; above, the \<open>e\<close> low bits are dropped,
  and the kept part \<open>q\<close> goes up by one when the dropped part \<open>r\<close> is more than half of
  \<open>2^e\<close>, or exactly half with \<open>q\<close> odd.
\<close>

definition round_nat :: "nat \<Rightarrow> nat" where
  "round_nat m =
     (if m < 2 ^ 53 then m
      else (let e = bitlen m - 53;
                q = m div 2 ^ e;
                r = m mod 2 ^ e;
                h = 2 ^ (e - 1);
                q' = (if h < r \<or> (r = h \<and> odd q) then q + 1 else q)
            in q' * 2 ^ e))"

text \<open>The double nearest to the integer \<open>i\<close>; a rounded magnitude of \<open>2^1024\<close> or more overflows.\<close>

definition to_double :: "int \<Rightarrow> jsnum" where
  "to_double i =
     (let m = round_nat (nat \<bar>i\<bar>)
      in if 2 ^ 1024 \<le> m then (if i < 0 then NegInf else PosInf)
         else Num (if i < 0 then - int m else int m))"

text \<open>JavaScript's \<^verbatim>\<open>a + b\<close> on two of these numbers: the exact sum, rounded.\<close>

fun js_add :: "jsnum \<Rightarrow> jsnum \<Rightarrow> jsnum" where
  "js_add (Num a) (Num b) = to_double (a + b)"
| "js_add NaN _ = NaN"
| "js_add _ NaN = NaN"
| "js_add PosInf NegInf = NaN"
| "js_add NegInf PosInf = NaN"
| "js_add PosInf _ = PosInf"
| "js_add _ PosInf = PosInf"
| "js_add NegInf _ = NegInf"
| "js_add _ NegInf = NegInf"

fun truthy_num :: "jsnum \<Rightarrow> bool" where
  "truthy_num (Num n) = (n \<noteq> 0)"
| "truthy_num NaN = False"
| "truthy_num PosInf = True"
| "truthy_num NegInf = True"

text \<open>
  The session's randomness is either what the SDK's \<^verbatim>\<open>generateRandomness()\<close> returned
  (a decimal string in current SDK versions) or the BigInt of the fallback at
  zklogin.js:162.
\<close>

datatype rand = RStr string | RBig int

fun truthy_rand :: "rand \<Rightarrow> bool" where
  "truthy_rand (RStr s) = (s \<noteq> [])"
| "truthy_rand (RBig n) = (n \<noteq> 0)"

definition digit_char :: "nat \<Rightarrow> char" where
  "digit_char d = ''0123456789'' ! d"

fun dec_nat :: "nat \<Rightarrow> string" where
  "dec_nat n = (if n < 10 then [digit_char n] else dec_nat (n div 10) @ [digit_char (n mod 10)])"

declare dec_nat.simps [simp del]

definition dec_int :: "int \<Rightarrow> string" where
  "dec_int i = (if i < 0 then CHR ''-'' # dec_nat (nat (- i)) else dec_nat (nat i))"

text \<open>\<^verbatim>\<open>x.toString()\<close> on the randomness.\<close>

fun rand_toString :: "rand \<Rightarrow> string" where
  "rand_toString (RStr s) = s"
| "rand_toString (RBig n) = dec_int n"

text \<open>JavaScript truthiness of a value (\<^verbatim>\<open>!!v\<close>).\<close>

fun truthy_json :: "json \<Rightarrow> bool" where
  "truthy_json JNull = False"
| "truthy_json (JBool b) = b"
| "truthy_json (JNum x) = (x \<noteq> 0)"
| "truthy_json (JStr s) = (s \<noteq> [])"
| "truthy_json (JArr _) = True"
| "truthy_json (JObj _) = True"

fun truthy :: "jsval \<Rightarrow> bool" where
  "truthy Undefined = False"
| "truthy (Val j) = truthy_json j"
| "truthy (Builtin _) = True"

text \<open>\<^verbatim>\<open>!s\<close> for a field that is \<^verbatim>\<open>null\<close>/\<^verbatim>\<open>undefined\<close> or a string.\<close>

fun truthy_str :: "string option \<Rightarrow> bool" where
  "truthy_str None = False"
| "truthy_str (Some s) = (s \<noteq> [])"

section \<open>Errors\<close>

text \<open>
  The code throws \<^verbatim>\<open>Error\<close> objects told apart by their message only, and every public
  method rethrows what it catches under its own prefix. One constructor per message:
  \<^item> \<open>TypeError\<close>: a property read on \<^verbatim>\<open>null\<close>, or a value that has no string;
  \<^item> \<open>SyntaxError\<close>: \<^verbatim>\<open>JSON.parse\<close> rejected the decoded segment;
  \<^item> \<open>SdkError\<close>: an SDK function threw;
  \<^item> \<open>StorageError\<close>: the salt database failed;
  \<^item> \<open>ClientIdRequired\<close>, \<open>ProviderRequired\<close>, \<open>RedirectUrlRequired\<close>: "... is required";
  \<^item> \<open>UnsupportedProvider p\<close>: "Unsupported provider: p";
  \<^item> \<open>UnsupportedKeyScheme k\<close>: "Unsupported key scheme: k";
  \<^item> \<open>KeyPairNotGenerated\<close>: "Ephemeral key pair not generated. Call
    generateEphemeralKeyPair() first.";
  \<^item> \<open>PreparationNotCompleted\<close>: "JWT preparation not completed. Call prepareForJWT()
    first.";
  \<^item> \<open>InvalidJWTTokenFormat\<close>: "Invalid JWT token format" (processJWT);
  \<^item> \<open>InvalidJWTFormat\<close>: "Invalid JWT format" (decodeJWT);
  \<^item> \<open>NonceMismatch n v\<close>: "Nonce mismatch: expected n, got v";
  \<^item> \<open>MissingSub\<close>: "JWT token missing subject (sub) claim";
  \<^item> \<open>NoJWTAvailable\<close>: "No JWT token available";
  \<^item> \<open>FailedToGenerateKeyPair e\<close>: "Failed to generate ephemeral key pair: e";
  \<^item> \<open>FailedToPrepare e\<close>: "Failed to prepare for JWT: e";
  \<^item> \<open>FailedToProcessJWT e\<close>: "Failed to process JWT: e";
  \<^item> \<open>FailedToExtractSubject e\<close>: "Failed to extract subject from JWT: e";
  \<^item> \<open>FailedToDecodeJWT e\<close>: "Failed to decode JWT: e".
\<close>

datatype error =
    TypeError
  | SyntaxError
  | SdkError
  | StorageError
  | ClientIdRequired
  | ProviderRequired
  | RedirectUrlRequired
  | UnsupportedProvider string
  | UnsupportedKeyScheme string
  | KeyPairNotGenerated
  | PreparationNotCompleted
  | InvalidJWTTokenFormat
  | InvalidJWTFormat
  | NonceMismatch string jsval
  | MissingSub
  | NoJWTAvailable
  | FailedToGenerateKeyPair error
  | FailedToPrepare error
  | FailedToProcessJWT error
  | FailedToExtractSubject error
  | FailedToDecodeJWT error

section \<open>The JWT codec\<close>

text \<open>
  \<^verbatim>\<open>jwt.split('.')\<close>: the pieces between the dots, in order. The result is never empty:
  the empty string splits into one empty piece.
\<close>

fun split_dot :: "string \<Rightarrow> string list" where
  "split_dot [] = [[]]"
| "split_dot (c # cs) =
     (if c = CHR ''.'' then [] # split_dot cs
      else (case split_dot cs of
              [] \<Rightarrow> [[c]]
            | p # ps \<Rightarrow> (c # p) # ps))"

text \<open>The inverse direction, \<^verbatim>\<open>parts.join('.')\<close>, used to state what \<open>split_dot\<close> computes.\<close>

fun join_dot :: "string list \<Rightarrow> string" where
  "join_dot [] = []"
| "join_dot [p] = p"
| "join_dot (p # q # ps) = p @ CHR ''.'' # join_dot (q # ps)"

text \<open>zklogin.js:340-343.\<close>

definition isValidJWT :: "string \<Rightarrow> bool" where
  "isValidJWT tok = (let parts = split_dot tok in length parts = 3)"

text \<open>
  Reading property \<open>k\<close> of a parsed value. On \<^verbatim>\<open>null\<close> the read throws a TypeError. An
  object yields its own member. The program reads only the names alg, typ, kid, iss, aud,
  sub, exp, iat, nonce, email, email_verified, name and picture; none of them is inherited
  by objects, arrays, numbers or booleans, and strings inherit only
  \<^verbatim>\<open>String.prototype.sub\<close>. \<open>get_prop\<close> is meant for these names.
\<close>

fun get_prop :: "json \<Rightarrow> string \<Rightarrow> jsval" where
  "get_prop (JObj kvs) k = (case map_of (rev kvs) k of None \<Rightarrow> Undefined | Some v \<Rightarrow> Val v)"
| "get_prop (JStr s) k = (if k = ''sub'' then Builtin ''String.prototype.sub'' else Undefined)"
| "get_prop _ k = Undefined"

definition read_prop :: "json \<Rightarrow> string \<Rightarrow> error + jsval" where
  "read_prop j k = (if j = JNull then Inl TypeError else Inr (get_prop j k))"

text \<open>
  Whether converting a value to a string, as a template literal \<^verbatim>\<open>`${v}`\<close> does, throws
  a TypeError. A parsed object inherits \<^verbatim>\<open>Object.prototype.toString\<close> and prints as
  "[object Object]", unless it has an own member named \<^verbatim>\<open>toString\<close>: that member came
  out of JSON, so it is not callable, the inherited \<^verbatim>\<open>valueOf\<close> returns the object
  itself, and the conversion fails with "Cannot convert object to primitive value". An
  array joins the strings of its elements, so it fails when one of them does. Every
  other value has a string.
\<close>

fun toString_throws :: "json \<Rightarrow> bool" where
  "toString_throws (JObj kvs) = (''toString'' \<in> set (map fst kvs))"
| "toString_throws (JArr xs) = list_ex toString_throws xs"
| "toString_throws _ = False"

fun jsval_toString_throws :: "jsval \<Rightarrow> bool" where
  "jsval_toString_throws (Val j) = toString_throws j"
| "jsval_toString_throws _ = False"

text \<open>
  The library functions the program calls. Their code is not part of the repository, so
  they are parameters of the model:
  \<^item> \<open>parseSegment seg\<close> is \<^verbatim>\<open>JSON.parse(Buffer.from(seg, 'base64').toString())\<close>, \<open>None\<close>
    when \<^verbatim>\<open>JSON.parse\<close> throws;
  \<^item> \<open>pk_toSuiAddress\<close> is \<^verbatim>\<open>publicKey.toSuiAddress()\<close>;
  \<^item> \<open>pk_toBase64\<close> is \<^verbatim>\<open>publicKey.toBase64()\<close>, \<open>None\<close> when the call throws;
  \<^item> \<open>str_base64 s\<close> is \<^verbatim>\<open>Buffer.from(s).toString('base64')\<close>;
  \<^item> \<open>sdk_getExtendedEphemeralPublicKey\<close>, \<open>sdk_generateNonce\<close>, \<open>sdk_jwtToAddress\<close>,
    \<open>sdk_computeZkLoginAddressFromSeed\<close> are the functions of \<^verbatim>\<open>@mysten/sui/zklogin\<close>,
    \<open>None\<close> when the call throws;
  \<^item> \<open>stringifyNonceData k e r\<close> is \<^verbatim>\<open>JSON.stringify({ephemeralPublicKey: k, maxEpoch: e,
    randomness: r})\<close>;
  \<^item> \<open>sha256_base64url d\<close> is
    \<^verbatim>\<open>crypto.createHash('sha256').update(d).digest('base64url')\<close>.
\<close>

type_synonym pubkey = string

text \<open>
  What \<^verbatim>\<open>extendedEphemeralPublicKey\<close> holds: the SDK's extended key (a string) or,
  after the fallback at zklogin.js:175, the public key object itself.
\<close>

datatype xpk = XStr string | XKey pubkey

text \<open>The salt argument of the fallback derivation: a BigInt or the salt string as it is.\<close>

datatype salt_arg = SaltBig int | SaltStr string

record env =
  parseSegment :: "string \<Rightarrow> json option"
  pk_toSuiAddress :: "pubkey \<Rightarrow> string"
  pk_toBase64 :: "pubkey \<Rightarrow> string option"
  str_base64 :: "string \<Rightarrow> string"
  sdk_getExtendedEphemeralPublicKey :: "pubkey \<Rightarrow> xpk option"
  sdk_generateNonce :: "xpk \<Rightarrow> jsnum \<Rightarrow> rand \<Rightarrow> string option"
  stringifyNonceData :: "string \<Rightarrow> jsnum \<Rightarrow> string \<Rightarrow> string"
  sha256_base64url :: "string \<Rightarrow> string"
  sdk_jwtToAddress :: "string \<Rightarrow> string \<Rightarrow> string option"
  sdk_computeZkLoginAddressFromSeed :: "salt_arg \<Rightarrow> string \<Rightarrow> jsval \<Rightarrow> jsval \<Rightarrow> string option"

record decoded_jwt =
  dj_header :: json
  dj_payload :: json
  dj_signature :: string
  raw_header :: string
  raw_payload :: string
  raw_signature :: string

text \<open>zklogin.js:366-395. Every error of the body is rethrown as "Failed to decode JWT".\<close>

definition decodeJWT :: "env \<Rightarrow> string \<Rightarrow> error + decoded_jwt" where
  "decodeJWT E tok =
     (case split_dot tok of
        [p0, p1, p2] \<Rightarrow>
          (case parseSegment E p0 of
             None \<Rightarrow> Inl (FailedToDecodeJWT SyntaxError)
           | Some header \<Rightarrow>
               (case parseSegment E p1 of
                  None \<Rightarrow> Inl (FailedToDecodeJWT SyntaxError)
                | Some payload \<Rightarrow>
                    Inr \<lparr>dj_header = header, dj_payload = payload, dj_signature = p2,
                         raw_header = p0, raw_payload = p1, raw_signature = p2\<rparr>))
      | _ \<Rightarrow> Inl (FailedToDecodeJWT InvalidJWTFormat))"

text \<open>
  zklogin.js:348-361. \<^verbatim>\<open>parts[1]\<close> of a token without a dot is \<^verbatim>\<open>undefined\<close>, and
  \<^verbatim>\<open>Buffer.from(undefined, 'base64')\<close> throws a TypeError.
\<close>

definition extractSubFromJWT :: "env \<Rightarrow> string \<Rightarrow> error + jsval" where
  "extractSubFromJWT E tok =
     (case split_dot tok of
        p0 # p1 # _ \<Rightarrow>
          (case parseSegment E p1 of
             None \<Rightarrow> Inl (FailedToExtractSubject SyntaxError)
           | Some payload \<Rightarrow>
               (case read_prop payload ''sub'' of
                  Inl e \<Rightarrow> Inl (FailedToExtractSubject e)
                | Inr sub \<Rightarrow>
                    if \<not> truthy sub then Inl (FailedToExtractSubject MissingSub)
                    else Inr sub))
      | _ \<Rightarrow> Inl (FailedToExtractSubject TypeError))"

section \<open>Configuration and session\<close>

text \<open>The \<^verbatim>\<open>PROVIDERS\<close> table, zklogin.js:27-52.\<close>

record provider_info =
  pv_name :: string
  authUrl :: string
  pv_scope :: string
  responseType :: string

definition PROVIDERS :: "(string \<times> provider_info) list" where
  "PROVIDERS =
     [(''google'', \<lparr>pv_name = ''Google'',
         authUrl = ''https://accounts.google.com/o/oauth2/v2/auth'',
         pv_scope = ''openid email profile'', responseType = ''id_token''\<rparr>),
      (''facebook'', \<lparr>pv_name = ''Facebook'',
         authUrl = ''https://www.facebook.com/v18.0/dialog/oauth'',
         pv_scope = ''openid email'', responseType = ''id_token''\<rparr>),
      (''twitch'', \<lparr>pv_name = ''Twitch'',
         authUrl = ''https://id.twitch.tv/oauth2/authorize'',
         pv_scope = ''openid user:read:email'', responseType = ''id_token''\<rparr>),
      (''apple'', \<lparr>pv_name = ''Apple'',
         authUrl = ''https://appleid.apple.com/auth/authorize'',
         pv_scope = ''openid email name'', responseType = ''id_token''\<rparr>)]"

text \<open>
  \<^verbatim>\<open>PROVIDERS[name]\<close>. \<^verbatim>\<open>PROVIDERS\<close> is an object literal, so besides its four entries
  the lookup finds the members of \<^verbatim>\<open>Object.prototype\<close>: such a value is truthy and has
  no \<^verbatim>\<open>authUrl\<close>.
\<close>

datatype provider_lookup = Entry provider_info | Inherited | NoProvider

definition object_prototype_names :: "string list" where
  "object_prototype_names =
     [''constructor'', ''__defineGetter__'', ''__defineSetter__'', ''hasOwnProperty'',
      ''__lookupGetter__'', ''__lookupSetter__'', ''isPrototypeOf'',
      ''propertyIsEnumerable'', ''toString'', ''valueOf'', ''__proto__'',
      ''toLocaleString'']"

definition lookup_provider :: "string \<Rightarrow> provider_lookup" where
  "lookup_provider name =
     (case map_of PROVIDERS name of
        Some p \<Rightarrow> Entry p
      | None \<Rightarrow> if name \<in> set object_prototype_names then Inherited else NoProvider)"

text \<open>\<^verbatim>\<open>this.config\<close>, zklogin.js:59-70.\<close>

record config =
  suiRpcUrl :: string
  provider :: string
  clientId :: string
  redirectUrl :: string
  keyScheme :: string
  oauthFlow :: string
  cfg_maxEpoch :: jsnum
  cfg_userSalt :: string
  useDatabase :: bool
  dbPath :: string

text \<open>The constructor's argument: each member may be absent.\<close>

record config_in =
  in_suiRpcUrl :: "string option"
  in_provider :: "string option"
  in_clientId :: "string option"
  in_redirectUrl :: "string option"
  in_keyScheme :: "string option"
  in_oauthFlow :: "string option"
  in_maxEpoch :: "jsnum option"
  in_userSalt :: "string option"
  in_useDatabase :: "bool option"
  in_dbPath :: "string option"

text \<open>\<^verbatim>\<open>x || d\<close> for an optional string, an optional number and an optional boolean.\<close>

definition or_str :: "string option \<Rightarrow> string \<Rightarrow> string" where
  "or_str x d = (case x of None \<Rightarrow> d | Some s \<Rightarrow> if s = [] then d else s)"

definition or_num :: "jsnum option \<Rightarrow> jsnum \<Rightarrow> jsnum" where
  "or_num x d = (case x of None \<Rightarrow> d | Some n \<Rightarrow> if truthy_num n then n else d)"

definition or_bool :: "bool option \<Rightarrow> bool \<Rightarrow> bool" where
  "or_bool x d = (case x of None \<Rightarrow> d | Some b \<Rightarrow> if b then b else d)"

text \<open>
  An ephemeral key pair: the private key and the public key that
  \<^verbatim>\<open>getPublicKey()\<close> returns.
\<close>

record keypair =
  secretKey :: string
  publicKey :: pubkey

text \<open>
  Modelled from the spec: the salt store (\<^verbatim>\<open>./database\<close>, \<^verbatim>\<open>UserSaltDatabase\<close>) is not
  among the sources. Spec 4.1: \<^verbatim>\<open>getOrCreateSalt\<close> returns the stored salt of the
  (subject, provider) pair if there is one; otherwise it generates a new random salt,
  stores it under the pair and returns it; an unavailable store raises a storage error.
  The store is an association list from (subject, provider) to salt; the outcome of the
  random draw and the availability of the store are inputs.
\<close>

type_synonym salt_db = "((jsval \<times> string) \<times> string) list"

record salt_world =
  storage_ok :: bool
  fresh_salt :: string

definition getOrCreateUserSalt ::
  "salt_world \<Rightarrow> salt_db \<Rightarrow> jsval \<Rightarrow> string \<Rightarrow> error + (string \<times> salt_db)" where
  "getOrCreateUserSalt W db subject prov =
     (if \<not> storage_ok W then Inl StorageError
      else (case map_of db (subject, prov) of
              Some salt \<Rightarrow> Inr (salt, db)
            | None \<Rightarrow> Inr (fresh_salt W, ((subject, prov), fresh_salt W) # db)))"

text \<open>
  The fields of a \<^verbatim>\<open>ZkLogin\<close> object. \<open>None\<close> stands for \<^verbatim>\<open>null\<close> and for
  \<^verbatim>\<open>undefined\<close>. \<open>saltDatabase\<close> is set by the constructor only when \<open>useDatabase\<close> holds.
\<close>

record session =
  config :: config
  saltDatabase :: "salt_db option"
  ephemeralKeyPair :: "keypair option"
  randomness :: "rand option"
  nonce :: "string option"
  maxEpoch :: "jsnum option"
  currentEpoch :: "jsnum option"
  jwt :: "string option"
  decodedJWT :: "decoded_jwt option"
  userAddress :: "string option"
  userSalt :: "string option"
  zkLoginSignature :: "string option"

text \<open>zklogin.js:97-106. \<open>decodedJWT\<close> and \<open>userSalt\<close> are not among the fields it clears.\<close>

definition reset :: "session \<Rightarrow> session" where
  "reset s = s\<lparr>ephemeralKeyPair := None, randomness := None, nonce := None,
               maxEpoch := None, currentEpoch := None, jwt := None,
               userAddress := None, zkLoginSignature := None\<rparr>"

text \<open>
  zklogin.js:58-92. \<open>db0\<close> is the content of the salt store found at \<open>dbPath\<close>.
  \<open>clientId\<close> and \<open>redirectUrl\<close> are copied as they are; an absent one is written as
  the empty string, which is falsy as well and rejected by the same check.
\<close>

definition new_ZkLogin :: "salt_db \<Rightarrow> config_in \<Rightarrow> error + session" where
  "new_ZkLogin db0 cin =
     (let cfg = \<lparr>suiRpcUrl = or_str (in_suiRpcUrl cin) ''https://fullnode.devnet.sui.io:443'',
                 provider = or_str (in_provider cin) ''google'',
                 clientId = (case in_clientId cin of None \<Rightarrow> [] | Some c \<Rightarrow> c),
                 redirectUrl = (case in_redirectUrl cin of None \<Rightarrow> [] | Some u \<Rightarrow> u),
                 keyScheme = or_str (in_keyScheme cin) ''ED25519'',
                 oauthFlow = or_str (in_oauthFlow cin) ''implicit'',
                 cfg_maxEpoch = or_num (in_maxEpoch cin) (Num 10),
                 cfg_userSalt = or_str (in_userSalt cin) ''0'',
                 useDatabase = or_bool (in_useDatabase cin) False,
                 dbPath = or_str (in_dbPath cin) ''./zklogin_salts.db''\<rparr>
      in if clientId cfg = [] then Inl ClientIdRequired
         else if redirectUrl cfg = [] then Inl RedirectUrlRequired
         else if lookup_provider (provider cfg) = NoProvider
           then Inl (UnsupportedProvider (provider cfg))
         else Inr (reset \<lparr>config = cfg,
                     saltDatabase = (if useDatabase cfg then Some db0 else None),
                     ephemeralKeyPair = None, randomness = None, nonce = None,
                     maxEpoch = None, currentEpoch = None, jwt = None,
                     decodedJWT = None, userAddress = None, userSalt = None,
                     zkLoginSignature = None\<rparr>))"

section \<open>Step 1: the ephemeral key pair\<close>

text \<open>The key pairs that \<^verbatim>\<open>new Ed25519Keypair()\<close> and \<^verbatim>\<open>new Secp256k1Keypair()\<close> would draw.\<close>

record key_world =
  new_Ed25519Keypair :: keypair
  new_Secp256k1Keypair :: keypair

record key_result =
  kr_publicKey :: string
  kr_keyScheme :: string

text \<open>zklogin.js:111-129.\<close>

definition generateEphemeralKeyPair ::
  "env \<Rightarrow> key_world \<Rightarrow> session \<Rightarrow> (error + key_result) \<times> session" where
  "generateEphemeralKeyPair E W s =
     (if keyScheme (config s) = ''ED25519'' then
        (let kp = new_Ed25519Keypair W; s' = s\<lparr>ephemeralKeyPair := Some kp\<rparr>
         in (Inr \<lparr>kr_publicKey = pk_toSuiAddress E (publicKey kp),
                  kr_keyScheme = keyScheme (config s')\<rparr>, s'))
      else if keyScheme (config s) = ''Secp256k1'' then
        (let kp = new_Secp256k1Keypair W; s' = s\<lparr>ephemeralKeyPair := Some kp\<rparr>
         in (Inr \<lparr>kr_publicKey = pk_toSuiAddress E (publicKey kp),
                  kr_keyScheme = keyScheme (config s')\<rparr>, s'))
      else (Inl (FailedToGenerateKeyPair (UnsupportedKeyScheme (keyScheme (config s)))), s))"

section \<open>Step 2: randomness, epochs and nonce\<close>

text \<open>
  What the outside world answers during \<^verbatim>\<open>prepareForJWT\<close>:
  \<^item> \<open>sdk_randomness\<close>: the value of \<^verbatim>\<open>generateRandomness()\<close>, \<open>None\<close> when it throws;
  \<^item> \<open>fallback_randomness\<close>: the 32 bytes of \<^verbatim>\<open>crypto.randomBytes(32)\<close> as a BigInt;
  \<^item> \<open>epoch_fetch\<close>: \<open>Some e\<close> when the network call returned and
    \<^verbatim>\<open>parseInt(epoch.epoch)\<close> is \<open>e\<close>, \<open>None\<close> when anything in that \<^verbatim>\<open>try\<close> block threw.
\<close>

record prep_world =
  sdk_randomness :: "rand option"
  fallback_randomness :: int
  epoch_fetch :: "jsnum option"

text \<open>zklogin.js:226-234.\<close>

definition getCurrentEpoch :: "prep_world \<Rightarrow> jsnum" where
  "getCurrentEpoch W = (case epoch_fetch W of Some e \<Rightarrow> e | None \<Rightarrow> Num 100)"

text \<open>
  zklogin.js:183-206, the nonce when \<^verbatim>\<open>generateNonce\<close> threw. A string has neither
  \<^verbatim>\<open>toBase64\<close> nor \<^verbatim>\<open>toSuiAddress\<close> nor \<^verbatim>\<open>toBytes\<close>, so for it the last resort
  \<^verbatim>\<open>Buffer.from(...).toString('base64')\<close> is taken; a public key object answers
  \<^verbatim>\<open>toBase64()\<close> or else \<^verbatim>\<open>toSuiAddress()\<close>.
\<close>

definition fallbackNonce :: "env \<Rightarrow> xpk \<Rightarrow> jsnum \<Rightarrow> rand \<Rightarrow> string" where
  "fallbackNonce E x me r =
     (let ephemeralPublicKeyBase64 =
            (case x of
               XKey pk \<Rightarrow> (case pk_toBase64 E pk of
                             Some b \<Rightarrow> b
                           | None \<Rightarrow> pk_toSuiAddress E pk)
             | XStr str \<Rightarrow> str_base64 E str);
          nonceData = stringifyNonceData E ephemeralPublicKeyBase64 me (rand_toString r)
      in sha256_base64url E nonceData)"

record prep_result =
  pr_randomness :: string
  pr_nonce :: string
  pr_currentEpoch :: jsnum
  pr_maxEpoch :: jsnum

text \<open>
  zklogin.js:134-219. The arguments are optional; a falsy one leaves the configuration
  as it is. Assignments made before a throw stay.
\<close>

definition prepareForJWT ::
  "env \<Rightarrow> prep_world \<Rightarrow> session \<Rightarrow> string option \<Rightarrow> string option \<Rightarrow> string option
   \<Rightarrow> (error + prep_result) \<times> session" where
  "prepareForJWT E W s provider_arg clientId_arg redirectUrl_arg =
     (case ephemeralKeyPair s of
        None \<Rightarrow> (Inl (FailedToPrepare KeyPairNotGenerated), s)
      | Some kp \<Rightarrow>
          (let cfg = (config s)\<lparr>provider := or_str provider_arg (provider (config s)),
                                clientId := or_str clientId_arg (clientId (config s)),
                                redirectUrl := or_str redirectUrl_arg (redirectUrl (config s))\<rparr>;
               s1 = s\<lparr>config := cfg\<rparr>
           in if clientId cfg = [] then (Inl (FailedToPrepare ClientIdRequired), s1)
              else if provider cfg = [] then (Inl (FailedToPrepare ProviderRequired), s1)
              else if redirectUrl cfg = [] then (Inl (FailedToPrepare RedirectUrlRequired), s1)
              else
                (let r = (case sdk_randomness W of
                            Some r \<Rightarrow> r
                          | None \<Rightarrow> RBig (fallback_randomness W));
                     ce = getCurrentEpoch W;
                     me = js_add ce (cfg_maxEpoch cfg);
                     x = (case sdk_getExtendedEphemeralPublicKey E (publicKey kp) of
                            Some x \<Rightarrow> x
                          | None \<Rightarrow> XKey (publicKey kp));
                     n = (case sdk_generateNonce E x me r of
                            Some n \<Rightarrow> n
                          | None \<Rightarrow> fallbackNonce E x me r);
                     s2 = s1\<lparr>randomness := Some r, currentEpoch := Some ce,
                             maxEpoch := Some me, nonce := Some n\<rparr>
                 in (Inr \<lparr>pr_randomness = rand_toString r, pr_nonce = n,
                          pr_currentEpoch = ce, pr_maxEpoch = me\<rparr>, s2))))"

section \<open>The authorization URL\<close>

text \<open>
  \<^verbatim>\<open>URLSearchParams.prototype.toString()\<close>: the application/x-www-form-urlencoded
  serializer. Letters, digits and \<^verbatim>\<open>* - . _\<close> stay, a space becomes \<^verbatim>\<open>+\<close>, every other
  byte becomes \<^verbatim>\<open>%XX\<close> with upper-case hexadecimal digits.
\<close>

definition form_unreserved :: "char \<Rightarrow> bool" where
  "form_unreserved c =
     (c \<in> set ''ABCDEFGHIJKLMNOPQRSTUVWXYZabcdefghijklmnopqrstuvwxyz0123456789*-._'')"

definition hex_char :: "nat \<Rightarrow> char" where
  "hex_char d = ''0123456789ABCDEF'' ! d"

definition form_encode_byte :: "char \<Rightarrow> string" where
  "form_encode_byte c =
     (if form_unreserved c then [c]
      else if c = CHR '' '' then ''+''
      else [CHR ''%'', hex_char ((of_char c :: nat) div 16), hex_char ((of_char c :: nat) mod 16)])"

definition form_encode :: "string \<Rightarrow> string" where
  "form_encode str = concat (map form_encode_byte str)"

fun join_amp :: "string list \<Rightarrow> string" where
  "join_amp [] = []"
| "join_amp [p] = p"
| "join_amp (p # q # ps) = p @ CHR ''&'' # join_amp (q # ps)"

definition params_toString :: "(string \<times> string) list \<Rightarrow> string" where
  "params_toString ps = join_amp (map (\<lambda>(k, v). form_encode k @ CHR ''='' # form_encode v) ps)"

text \<open>\<^verbatim>\<open>String(this.nonce)\<close>, as \<^verbatim>\<open>params.set\<close> converts its argument.\<close>

definition nonce_toString :: "string option \<Rightarrow> string" where
  "nonce_toString n = (case n of None \<Rightarrow> ''null'' | Some str \<Rightarrow> str)"

text \<open>
  zklogin.js:243-256, the parameters in insertion order. \<open>st\<close> is the value of the
  \<^verbatim>\<open>state\<close> constant.
\<close>

definition isCodeFlow :: "session \<Rightarrow> bool" where
  "isCodeFlow s = (or_str (Some (oauthFlow (config s))) ''implicit'' = ''code'')"

definition oauthParams :: "session \<Rightarrow> string \<Rightarrow> (string \<times> string) list" where
  "oauthParams s st =
     [(''client_id'', clientId (config s)),
      (''redirect_uri'', redirectUrl (config s)),
      (''response_type'', if isCodeFlow s then ''code'' else ''id_token''),
      (''scope'', ''openid email profile''),
      (''state'', st),
      (''response_mode'', if isCodeFlow s then ''query'' else ''fragment'')]
     @ (if \<not> isCodeFlow s then [(''nonce'', nonce_toString (nonce s))] else [])"

text \<open>
  zklogin.js:239-258. \<open>generated_state\<close> is the string that
  \<^verbatim>\<open>`zklogin_${Date.now()}_${Math.random().toString(36).substr(2, 9)}`\<close> would produce.
  Reading \<^verbatim>\<open>authUrl\<close> of a provider that is not in the table throws a TypeError; an
  inherited member of the table has no \<^verbatim>\<open>authUrl\<close>, which prints as "undefined".
\<close>

definition buildOAuthUrl :: "session \<Rightarrow> string option \<Rightarrow> string \<Rightarrow> error + string" where
  "buildOAuthUrl s sessionId generated_state =
     (let st = or_str sessionId generated_state;
          query = params_toString (oauthParams s st)
      in (case lookup_provider (provider (config s)) of
            Entry p \<Rightarrow> Inr (authUrl p @ CHR ''?'' # query)
          | Inherited \<Rightarrow> Inr (''undefined'' @ CHR ''?'' # query)
          | NoProvider \<Rightarrow> Inl TypeError))"

section \<open>Step 3: processing the token\<close>

text \<open>\<^verbatim>\<open>/^[0-9a-fA-F]+$/.test(salt)\<close> and \<^verbatim>\<open>BigInt('0x' + salt)\<close>.\<close>

definition is_hex_digit :: "char \<Rightarrow> bool" where
  "is_hex_digit c = (c \<in> set ''0123456789abcdefABCDEF'')"

definition hex_digit_value :: "char \<Rightarrow> int" where
  "hex_digit_value c =
     (case map_of (zip ''0123456789abcdefABCDEF''
                       [0, 1, 2, 3, 4, 5, 6, 7, 8, 9, 10, 11, 12, 13, 14, 15,
                        10, 11, 12, 13, 14, 15]) c of
        Some v \<Rightarrow> v
      | None \<Rightarrow> 0)"

definition is_hex_string :: "string \<Rightarrow> bool" where
  "is_hex_string str = (str \<noteq> [] \<and> list_all is_hex_digit str)"

definition hex_to_int :: "string \<Rightarrow> int" where
  "hex_to_int str = foldl (\<lambda>acc c. 16 * acc + hex_digit_value c) 0 str"

text \<open>
  zklogin.js:288-297: the salt comes from the store when \<open>useDatabase\<close> is set and the
  store exists, and is the configured salt otherwise. In the first branch the log line
  \<^verbatim>\<open>`... for user ${subject}`\<close> converts the subject to a string after the store has
  answered, and throws when that conversion does. The second component is the store
  after the call.
\<close>

definition resolveSalt ::
  "salt_world \<Rightarrow> session \<Rightarrow> jsval \<Rightarrow> (error + string) \<times> salt_db option" where
  "resolveSalt W s subject =
     (case saltDatabase s of
        Some db \<Rightarrow>
          if useDatabase (config s) then
            (case getOrCreateUserSalt W db subject (provider (config s)) of
               Inl e \<Rightarrow> (Inl e, Some db)
             | Inr (salt, db') \<Rightarrow>
                 if jsval_toString_throws subject then (Inl TypeError, Some db')
                 else (Inr salt, Some db'))
          else (Inr (cfg_userSalt (config s)), saltDatabase s)
      | None \<Rightarrow> (Inr (cfg_userSalt (config s)), saltDatabase s))"

text \<open>
  zklogin.js:303-322: \<^verbatim>\<open>jwtToAddress\<close>, and when it throws the fallback through
  \<^verbatim>\<open>computeZkLoginAddressFromSeed\<close>, whose own failure is not caught here.
\<close>

definition deriveAddress :: "env \<Rightarrow> string \<Rightarrow> string \<Rightarrow> error + string" where
  "deriveAddress E jwtToken salt =
     (case sdk_jwtToAddress E jwtToken salt of
        Some a \<Rightarrow> Inr a
      | None \<Rightarrow>
          (case decodeJWT E jwtToken of
             Inl e \<Rightarrow> Inl e
           | Inr decoded \<Rightarrow>
               (let saltForFallback =
                      (if is_hex_string salt then SaltBig (hex_to_int salt) else SaltStr salt)
                in (case read_prop (dj_payload decoded) ''sub'' of
                      Inl e \<Rightarrow> Inl e
                    | Inr sub \<Rightarrow>
                        (case read_prop (dj_payload decoded) ''aud'' of
                           Inl e \<Rightarrow> Inl e
                         | Inr aud \<Rightarrow>
                             (case sdk_computeZkLoginAddressFromSeed E saltForFallback
                                     ''sub'' sub aud of
                                None \<Rightarrow> Inl SdkError
                              | Some a \<Rightarrow> Inr a))))))"

record process_result =
  res_jwt :: string
  res_userAddress :: string
  res_subject :: jsval
  res_userSalt :: string
  res_decodedJWT :: decoded_jwt

text \<open>
  zklogin.js:263-335. Every error leaves as "Failed to process JWT: ..."; the session
  keeps what was assigned before the throw. The message of the nonce mismatch is built
  with \<^verbatim>\<open>`${this.decodedJWT.payload.nonce}`\<close>: when the payload's nonce has no
  string, that TypeError is thrown in place of the mismatch error.
\<close>

definition processJWT ::
  "env \<Rightarrow> salt_world \<Rightarrow> session \<Rightarrow> string \<Rightarrow> (error + process_result) \<times> session" where
  "processJWT E W s jwtToken =
     (case (randomness s, nonce s) of
        (Some r, Some n) \<Rightarrow>
          if \<not> truthy_rand r \<or> n = [] then (Inl (FailedToProcessJWT PreparationNotCompleted), s)
          else if \<not> isValidJWT jwtToken then (Inl (FailedToProcessJWT InvalidJWTTokenFormat), s)
          else
            (let s1 = s\<lparr>jwt := Some jwtToken\<rparr>
             in (case decodeJWT E jwtToken of
                   Inl e \<Rightarrow> (Inl (FailedToProcessJWT e), s1)
                 | Inr d \<Rightarrow>
                     (let s2 = s1\<lparr>decodedJWT := Some d\<rparr>
                      in (case read_prop (dj_payload d) ''nonce'' of
                            Inl e \<Rightarrow> (Inl (FailedToProcessJWT e), s2)
                          | Inr v \<Rightarrow>
                              if v \<noteq> Val (JStr n)
                              then (if jsval_toString_throws v
                                    then (Inl (FailedToProcessJWT TypeError), s2)
                                    else (Inl (FailedToProcessJWT (NonceMismatch n v)), s2))
                              else
                                (case extractSubFromJWT E jwtToken of
                                   Inl e \<Rightarrow> (Inl (FailedToProcessJWT e), s2)
                                 | Inr subject \<Rightarrow>
                                     (case resolveSalt W s2 subject of
                                        (Inl e, db') \<Rightarrow>
                                          (Inl (FailedToProcessJWT e), s2\<lparr>saltDatabase := db'\<rparr>)
                                      | (Inr salt, db') \<Rightarrow>
                                          (let s3 = s2\<lparr>saltDatabase := db', userSalt := Some salt\<rparr>
                                           in (case deriveAddress E jwtToken salt of
                                                 Inl e \<Rightarrow> (Inl (FailedToProcessJWT e), s3)
                                               | Inr a \<Rightarrow>
                                                   (Inr \<lparr>res_jwt = jwtToken,
                                                         res_userAddress = a,
                                                         res_subject = subject,
                                                         res_userSalt = salt,
                                                         res_decodedJWT = d\<rparr>,
                                                    s3\<lparr>userAddress := Some a\<rparr>)))))))))
      | _ \<Rightarrow> (Inl (FailedToProcessJWT PreparationNotCompleted), s))"

section \<open>The state snapshot\<close>

record jwt_claims =
  c_alg :: jsval
  c_typ :: jsval
  c_kid :: jsval
  c_iss :: jsval
  c_aud :: jsval
  c_sub :: jsval
  c_exp :: jsval
  c_iat :: jsval
  c_nonce :: jsval
  c_email :: jsval
  c_email_verified :: jsval
  c_name :: jsval
  c_picture :: jsval
  rawHeader :: string
  rawPayload :: string
  rawSignature :: string

text \<open>
  zklogin.js:400-432. The reads of \<^verbatim>\<open>decoded.header.alg\<close> and
  \<^verbatim>\<open>decoded.payload.iss\<close> are outside any \<^verbatim>\<open>try\<close>: a header or payload that parsed
  to \<^verbatim>\<open>null\<close> makes them throw a TypeError.
\<close>

definition getJWTClaims :: "env \<Rightarrow> session \<Rightarrow> error + jwt_claims" where
  "getJWTClaims E s =
     (case jwt s of
        None \<Rightarrow> Inl NoJWTAvailable
      | Some tok \<Rightarrow>
          if tok = [] then Inl NoJWTAvailable
          else (case decodeJWT E tok of
                  Inl e \<Rightarrow> Inl e
                | Inr decoded \<Rightarrow>
                    if dj_header decoded = JNull then Inl TypeError
                    else if dj_payload decoded = JNull then Inl TypeError
                    else Inr \<lparr>c_alg = get_prop (dj_header decoded) ''alg'',
                              c_typ = get_prop (dj_header decoded) ''typ'',
                              c_kid = get_prop (dj_header decoded) ''kid'',
                              c_iss = get_prop (dj_payload decoded) ''iss'',
                              c_aud = get_prop (dj_payload decoded) ''aud'',
                              c_sub = get_prop (dj_payload decoded) ''sub'',
                              c_exp = get_prop (dj_payload decoded) ''exp'',
                              c_iat = get_prop (dj_payload decoded) ''iat'',
                              c_nonce = get_prop (dj_payload decoded) ''nonce'',
                              c_email = get_prop (dj_payload decoded) ''email'',
                              c_email_verified = get_prop (dj_payload decoded) ''email_verified'',
                              c_name = get_prop (dj_payload decoded) ''name'',
                              c_picture = get_prop (dj_payload decoded) ''picture'',
                              rawHeader = raw_header decoded,
                              rawPayload = raw_payload decoded,
                              rawSignature = raw_signature decoded\<rparr>))"

record state_config =
  sc_provider :: string
  sc_keyScheme :: string
  sc_suiRpcUrl :: string
  sc_clientId :: "string option"
  sc_redirectUrl :: string

record snapshot =
  hasEphemeralKeyPair :: bool
  hasRandomness :: bool
  hasNonce :: bool
  hasJWT :: bool
  hasDecodedJWT :: bool
  hasUserAddress :: bool
  hasZkLoginSignature :: bool
  ephemeralPublicKey :: "string option"
  st_randomness :: "string option"
  st_nonce :: "string option"
  st_currentEpoch :: "jsnum option"
  st_maxEpoch :: "jsnum option"
  jwtClaims :: "jwt_claims option"
  st_config :: state_config

text \<open>
  zklogin.js:506-529. The only member whose evaluation can throw is \<open>jwtClaims\<close>.
\<close>

definition getState :: "env \<Rightarrow> session \<Rightarrow> error + snapshot" where
  "getState E s =
     (case (if truthy_str (jwt s)
            then (case getJWTClaims E s of Inl e \<Rightarrow> Inl e | Inr c \<Rightarrow> Inr (Some c))
            else Inr None) of
        Inl e \<Rightarrow> Inl e
      | Inr claims \<Rightarrow>
          Inr \<lparr>hasEphemeralKeyPair = (ephemeralKeyPair s \<noteq> None),
               hasRandomness = (case randomness s of None \<Rightarrow> False | Some r \<Rightarrow> truthy_rand r),
               hasNonce = truthy_str (nonce s),
               hasJWT = truthy_str (jwt s),
               hasDecodedJWT = (decodedJWT s \<noteq> None),
               hasUserAddress = truthy_str (userAddress s),
               hasZkLoginSignature = truthy_str (zkLoginSignature s),
               ephemeralPublicKey =
                 (case ephemeralKeyPair s of
                    None \<Rightarrow> None
                  | Some kp \<Rightarrow> Some (pk_toSuiAddress E (publicKey kp))),
               st_randomness =
                 (case randomness s of
                    None \<Rightarrow> None
                  | Some r \<Rightarrow> if truthy_rand r then Some (rand_toString r) else None),
               st_nonce = nonce s,
               st_currentEpoch = currentEpoch s,
               st_maxEpoch = maxEpoch s,
               jwtClaims = claims,
               st_config =
                 \<lparr>sc_provider = provider (config s),
                  sc_keyScheme = keyScheme (config s),
                  sc_suiRpcUrl = suiRpcUrl (config s),
                  sc_clientId =
                    (if clientId (config s) \<noteq> []
                     then Some (take 20 (clientId (config s)) @ ''...'')
                     else None),
                  sc_redirectUrl = redirectUrl (config s)\<rparr>\<rparr>)"

text \<open>
  The guard of zklogin.js:265 passes exactly when both the randomness and the nonce are
  truthy: set, and not \<^verbatim>\<open>0n\<close> or the empty string.
\<close>

definition is_prepared :: "session \<Rightarrow> bool" where
  "is_prepared s =
     ((case randomness s of None \<Rightarrow> False | Some r \<Rightarrow> truthy_rand r) \<and> truthy_str (nonce s))"

section \<open>A concrete environment and concrete runs\<close>

text \<open>
  To run the model, the JSON decoder is given by its table on the segments used below
  (each is the base64 text of the JSON written next to it) and the other library
  functions by simple stand-ins.
\<close>

definition seg_header :: string where
  "seg_header = ''eyJhbGciOiJSUzI1NiIsInR5cCI6IkpXVCJ9''"

definition seg_null :: string where
  "seg_null = ''bnVsbA''"

definition seg_user123 :: string where
  "seg_user123 = ''eyJub25jZSI6Im4xIiwic3ViIjoidXNlcjEyMyIsImF1ZCI6ImFwcCJ9''"

definition seg_user456 :: string where
  "seg_user456 = ''eyJub25jZSI6Im4xIiwic3ViIjoidXNlcjQ1NiIsImF1ZCI6ImFwcCJ9''"

definition seg_other_nonce :: string where
  "seg_other_nonce = ''eyJub25jZSI6Im4yIiwic3ViIjoidXNlcjEyMyIsImF1ZCI6ImFwcCJ9''"

definition seg_empty_sub :: string where
  "seg_empty_sub = ''eyJub25jZSI6Im4xIiwic3ViIjoiIn0''"

definition seg_unprintable_nonce :: string where
  "seg_unprintable_nonce =
     ''eyJub25jZSI6eyJ0b1N0cmluZyI6bnVsbH0sInN1YiI6InVzZXIxMjMiLCJhdWQiOiJhcHAifQ''"

definition sample_segments :: "(string \<times> json) list" where
  "sample_segments =
     [(seg_header, JObj [(''alg'', JStr ''RS256''), (''typ'', JStr ''JWT'')]),
      (seg_null, JNull),
      (seg_user123,
         JObj [(''nonce'', JStr ''n1''), (''sub'', JStr ''user123''), (''aud'', JStr ''app'')]),
      (seg_user456,
         JObj [(''nonce'', JStr ''n1''), (''sub'', JStr ''user456''), (''aud'', JStr ''app'')]),
      (seg_other_nonce,
         JObj [(''nonce'', JStr ''n2''), (''sub'', JStr ''user123''), (''aud'', JStr ''app'')]),
      (seg_empty_sub, JObj [(''nonce'', JStr ''n1''), (''sub'', JStr [])]),
      (seg_unprintable_nonce,
         JObj [(''nonce'', JObj [(''toString'', JNull)]), (''sub'', JStr ''user123''),
               (''aud'', JStr ''app'')])]"

definition sample_env :: env where
  "sample_env =
     \<lparr>parseSegment = map_of sample_segments,
      pk_toSuiAddress = (\<lambda>pk. ''0x'' @ pk),
      pk_toBase64 = (\<lambda>pk. None),
      str_base64 = (\<lambda>str. str),
      sdk_getExtendedEphemeralPublicKey = (\<lambda>pk. Some (XStr pk)),
      sdk_generateNonce = (\<lambda>x me r. Some ''n1''),
      stringifyNonceData = (\<lambda>k me r. k @ r),
      sha256_base64url = (\<lambda>d. d),
      sdk_jwtToAddress = (\<lambda>tok salt. Some (''0xaddr'' @ salt)),
      sdk_computeZkLoginAddressFromSeed = (\<lambda>salt claim sub aud. None)\<rparr>"

definition token_user123 :: string where
  "token_user123 = join_dot [seg_header, seg_user123, ''sig'']"

definition token_user456 :: string where
  "token_user456 = join_dot [seg_header, seg_user456, ''sig'']"



definition token_null_header :: string where
  "token_null_header = join_dot [seg_null, seg_other_nonce, ''sig'']"

definition token_null_payload :: string where
  "token_null_payload = join_dot [seg_header, seg_null, ''sig'']"

definition token_unprintable_nonce :: string where
  "token_unprintable_nonce = join_dot [seg_header, seg_unprintable_nonce, ''sig'']"

definition sample_config_in :: config_in where
  "sample_config_in =
     \<lparr>in_suiRpcUrl = None, in_provider = Some ''google'', in_clientId = Some ''test-client'',
      in_redirectUrl = Some ''http://localhost:3000/callback'',
      in_keyScheme = Some ''ED25519'', in_oauthFlow = None, in_maxEpoch = None,
      in_userSalt = None, in_useDatabase = None, in_dbPath = None\<rparr>"

definition sample_config :: config where
  "sample_config =
     \<lparr>suiRpcUrl = ''https://fullnode.devnet.sui.io:443'', provider = ''google'',
      clientId = ''test-client'', redirectUrl = ''http://localhost:3000/callback'',
      keyScheme = ''ED25519'', oauthFlow = ''implicit'', cfg_maxEpoch = Num 10,
      cfg_userSalt = ''0'', useDatabase = False, dbPath = ''./zklogin_salts.db''\<rparr>"

text \<open>The session right after \<open>new_ZkLogin [] sample_config_in\<close>.\<close>

definition created_session :: session where
  "created_session =
     \<lparr>config = sample_config, saltDatabase = None, ephemeralKeyPair = None,
      randomness = None, nonce = None, maxEpoch = None, currentEpoch = None, jwt = None,
      decodedJWT = None, userAddress = None, userSalt = None, zkLoginSignature = None\<rparr>"

definition sample_keys :: key_world where
  "sample_keys =
     \<lparr>new_Ed25519Keypair = \<lparr>secretKey = ''sk-ed'', publicKey = ''pk-ed''\<rparr>,
      new_Secp256k1Keypair = \<lparr>secretKey = ''sk-secp'', publicKey = ''pk-secp''\<rparr>\<rparr>"

definition sample_prep :: prep_world where
  "sample_prep =
     \<lparr>sdk_randomness = Some (RBig 12345), fallback_randomness = 7, epoch_fetch = Some (Num 100)\<rparr>"

definition sample_salt_world :: salt_world where
  "sample_salt_world = \<lparr>storage_ok = True, fresh_salt = ''a1b2''\<rparr>"

text \<open>The session after key generation, and after \<open>prepareForJWT\<close> without arguments.\<close>

definition keyed_session :: session where
  "keyed_session = created_session\<lparr>ephemeralKeyPair := Some (new_Ed25519Keypair sample_keys)\<rparr>"

definition prepared_session :: session where
  "prepared_session =
     keyed_session\<lparr>randomness := Some (RBig 12345), currentEpoch := Some (Num 100),
                   maxEpoch := Some (Num 110), nonce := Some ''n1''\<rparr>"

text \<open>The decoding of a sample token with raw header \<open>h\<close> and raw payload \<open>p\<close>.\<close>

definition decoded_of :: "string \<Rightarrow> json \<Rightarrow> string \<Rightarrow> json \<Rightarrow> decoded_jwt" where
  "decoded_of h hj p pj =
     \<lparr>dj_header = hj, dj_payload = pj, dj_signature = ''sig'',
      raw_header = h, raw_payload = p, raw_signature = ''sig''\<rparr>"

definition header_json :: json where
  "header_json = JObj [(''alg'', JStr ''RS256''), (''typ'', JStr ''JWT'')]"

definition payload_json :: "string \<Rightarrow> string \<Rightarrow> json" where
  "payload_json n sub = JObj [(''nonce'', JStr n), (''sub'', JStr sub), (''aud'', JStr ''app'')]"

text \<open>The snapshot of \<open>prepared_session\<close>.\<close>

definition prepared_snapshot :: snapshot where
  "prepared_snapshot =
     \<lparr>hasEphemeralKeyPair = True, hasRandomness = True, hasNonce = True, hasJWT = False,
      hasDecodedJWT = False, hasUserAddress = False, hasZkLoginSignature = False,
      ephemeralPublicKey = Some ''0xpk-ed'', st_randomness = Some ''12345'',
      st_nonce = Some ''n1'', st_currentEpoch = Some (Num 100), st_maxEpoch = Some (Num 110),
      jwtClaims = None,
      st_config = \<lparr>sc_provider = ''google'', sc_keyScheme = ''ED25519'',
                   sc_suiRpcUrl = ''https://fullnode.devnet.sui.io:443'',
                   sc_clientId = Some ''test-client...'',
                   sc_redirectUrl = ''http://localhost:3000/callback''\<rparr>\<rparr>"

text \<open>
  The same run for the provider \<^verbatim>\<open>'twitch'\<close>, and the session with keys whose configured
  window is \<open>2^53 - 1\<close>.
\<close>

definition twitch_session :: session where
  "twitch_session = prepared_session\<lparr>config := sample_config\<lparr>provider := ''twitch''\<rparr>\<rparr>"

definition wide_window_session :: session where
  "wide_window_session =
     keyed_session\<lparr>config := sample_config\<lparr>cfg_maxEpoch := Num 9007199254740991\<rparr>\<rparr>"

section \<open>Addition of small numbers is exact\<close>

lemma to_double_exact: "\<bar>i\<bar> < 2 ^ 53 \<Longrightarrow> to_double i = Num i"
proof -
  assume small: "\<bar>i\<bar> < 2 ^ 53"
  then have m: "nat \<bar>i\<bar> < 2 ^ 53"
    by (simp add: nat_less_iff)
  then have r: "round_nat (nat \<bar>i\<bar>) = nat \<bar>i\<bar>"
    by (simp add: round_nat_def)
  have "(2::nat) ^ 53 < 2 ^ 1024"
    by (rule power_strict_increasing) simp_all
  with m have "\<not> (2::nat) ^ 1024 \<le> nat \<bar>i\<bar>"
    by linarith
  with r show ?thesis
    by (simp add: to_double_def Let_def)
qed

lemma js_add_exact: "\<bar>a + b\<bar> < 2 ^ 53 \<Longrightarrow> js_add (Num a) (Num b) = Num (a + b)"
  by (simp add: to_double_exact)

lemma js_add_100_10: "js_add (Num 100) (Num 10) = Num 110"
  using js_add_exact [of 100 10] by simp

section \<open>The concrete runs are runs of the model\<close>

lemma created_session_run: "new_ZkLogin [] sample_config_in = Inr created_session"
  by (simp add: new_ZkLogin_def sample_config_in_def created_session_def sample_config_def
      or_str_def or_num_def or_bool_def lookup_provider_def PROVIDERS_def reset_def)

lemma keyed_session_run:
  "snd (generateEphemeralKeyPair sample_env sample_keys created_session) = keyed_session"
  by (simp add: generateEphemeralKeyPair_def keyed_session_def created_session_def
      sample_config_def Let_def)

lemma prepared_session_run:
  "snd (prepareForJWT sample_env sample_prep keyed_session None None None) = prepared_session"
  by (simp add: prepareForJWT_def prepared_session_def keyed_session_def created_session_def
      sample_config_def sample_prep_def sample_env_def sample_keys_def getCurrentEpoch_def
      or_str_def Let_def js_add_100_10 del: js_add.simps)

section \<open>Well-formedness of tokens\<close>

lemma split_dot_not_Nil: "split_dot s \<noteq> []"
  by (induction s) (auto split: list.splits)

lemma split_dot_dot_free: "CHR ''.'' \<notin> set p \<Longrightarrow> split_dot p = [p]"
  by (induction p) auto

lemma split_dot_append:
  "CHR ''.'' \<notin> set p \<Longrightarrow> split_dot (p @ CHR ''.'' # s) = p # split_dot s"
  by (induction p) auto

lemma split_dot_join:
  "segs \<noteq> [] \<Longrightarrow> \<forall>p\<in>set segs. CHR ''.'' \<notin> set p \<Longrightarrow> split_dot (join_dot segs) = segs"
proof (induction segs rule: join_dot.induct)
  case 1
  then show ?case by simp
next
  case (2 p)
  then show ?case by (simp add: split_dot_dot_free)
next
  case (3 p q ps)
  then show ?case by (simp add: split_dot_append)
qed

lemma join_split_dot: "join_dot (split_dot s) = s"
proof (induction s)
  case Nil
  then show ?case by simp
next
  case (Cons c cs)
  obtain p ps where sp: "split_dot cs = p # ps"
    using split_dot_not_Nil [of cs] by (cases "split_dot cs") auto
  with Cons show ?case
    by (cases ps) auto
qed

lemma split_dot_pieces_dot_free: "p \<in> set (split_dot s) \<Longrightarrow> CHR ''.'' \<notin> set p"
proof (induction s arbitrary: p)
  case Nil
  then show ?case by simp
next
  case (Cons c cs)
  obtain q qs where sp: "split_dot cs = q # qs"
    using split_dot_not_Nil [of cs] by (cases "split_dot cs") auto
  with Cons show ?case
    by (auto split: if_splits)
qed

lemma length_split_dot: "length (split_dot s) = Suc (length (filter (\<lambda>c. c = CHR ''.'') s))"
proof (induction s)
  case Nil
  then show ?case by simp
next
  case (Cons c cs)
  obtain q qs where sp: "split_dot cs = q # qs"
    using split_dot_not_Nil [of cs] by (cases "split_dot cs") auto
  with Cons show ?case by auto
qed

text \<open>
  Claim C7. Every token is a non-empty list of dot-free segments joined by dots, and
  \<open>isValidJWT\<close> accepts such a token exactly when there are three segments: one, two,
  four or more are rejected.
\<close>

theorem isValidJWT_three_segments:
  assumes "segs \<noteq> []" and "\<forall>p\<in>set segs. CHR ''.'' \<notin> set p"
  shows "isValidJWT (join_dot segs) = (length segs = 3)
         \<and> (\<exists>segs'. segs' \<noteq> [] \<and> (\<forall>p\<in>set segs'. CHR ''.'' \<notin> set p)
                \<and> tok = join_dot segs' \<and> isValidJWT tok = (length segs' = 3))"
proof
  show "isValidJWT (join_dot segs) = (length segs = 3)"
    using split_dot_join [OF assms] by (simp add: isValidJWT_def)
  have "split_dot tok \<noteq> []" by (rule split_dot_not_Nil)
  moreover have "\<forall>p\<in>set (split_dot tok). CHR ''.'' \<notin> set p"
    by (simp add: split_dot_pieces_dot_free)
  moreover have "tok = join_dot (split_dot tok)" by (simp add: join_split_dot)
  moreover have "isValidJWT tok = (length (split_dot tok) = 3)"
    by (simp add: isValidJWT_def)
  ultimately show "\<exists>segs'. segs' \<noteq> [] \<and> (\<forall>p\<in>set segs'. CHR ''.'' \<notin> set p)
                \<and> tok = join_dot segs' \<and> isValidJWT tok = (length segs' = 3)"
    by blast
qed

theorem isValidJWT_three_segments_witness:
  "isValidJWT ''aa.bb.cc'' \<and> \<not> isValidJWT ''aa'' \<and> \<not> isValidJWT ''aa.bb''
   \<and> \<not> isValidJWT ''aa.bb.cc.dd'' \<and> \<not> isValidJWT ''''"
  using isValidJWT_three_segments [of "[''aa'', ''bb'', ''cc'']"]
    isValidJWT_three_segments [of "[''aa'']"]
    isValidJWT_three_segments [of "[''aa'', ''bb'']"]
    isValidJWT_three_segments [of "[''aa'', ''bb'', ''cc'', ''dd'']"]
    isValidJWT_three_segments [of "[[]]"]
  by simp

section \<open>Key generation\<close>

text \<open>
  Claim C4. When the configured key scheme is neither \<^verbatim>\<open>'ED25519'\<close> nor
  \<^verbatim>\<open>'Secp256k1'\<close>, \<open>generateEphemeralKeyPair\<close> fails with "Unsupported key scheme"
  (rethrown as "Failed to generate ephemeral key pair") and the session is exactly what
  it was: in particular a session without a key pair still has none.
\<close>

theorem generateEphemeralKeyPair_unsupported:
  assumes "keyScheme (config s) \<noteq> ''ED25519''" and "keyScheme (config s) \<noteq> ''Secp256k1''"
  shows "generateEphemeralKeyPair E W s =
           (Inl (FailedToGenerateKeyPair (UnsupportedKeyScheme (keyScheme (config s)))), s)"
  using assms by (simp add: generateEphemeralKeyPair_def)

theorem generateEphemeralKeyPair_unsupported_witness:
  "new_ZkLogin [] (sample_config_in\<lparr>in_keyScheme := Some ''RSA''\<rparr>)
     = Inr (created_session\<lparr>config := sample_config\<lparr>keyScheme := ''RSA''\<rparr>\<rparr>)
   \<and> generateEphemeralKeyPair sample_env sample_keys
        (created_session\<lparr>config := sample_config\<lparr>keyScheme := ''RSA''\<rparr>\<rparr>)
     = (Inl (FailedToGenerateKeyPair (UnsupportedKeyScheme ''RSA'')),
        created_session\<lparr>config := sample_config\<lparr>keyScheme := ''RSA''\<rparr>\<rparr>)
   \<and> ephemeralKeyPair (snd (generateEphemeralKeyPair sample_env sample_keys
        (created_session\<lparr>config := sample_config\<lparr>keyScheme := ''RSA''\<rparr>\<rparr>))) = None"
  using generateEphemeralKeyPair_unsupported
    [of "created_session\<lparr>config := sample_config\<lparr>keyScheme := ''RSA''\<rparr>\<rparr>"
        sample_env sample_keys]
  by (simp add: new_ZkLogin_def sample_config_in_def created_session_def sample_config_def
      or_str_def or_num_def or_bool_def lookup_provider_def PROVIDERS_def reset_def)

section \<open>Preparation\<close>

lemma prepareForJWT_success_state:
  assumes "prepareForJWT E W s p c u = (Inr res, s')"
  shows "currentEpoch s' = Some (getCurrentEpoch W)
         \<and> maxEpoch s' = Some (js_add (getCurrentEpoch W) (cfg_maxEpoch (config s)))
         \<and> pr_currentEpoch res = getCurrentEpoch W
         \<and> pr_maxEpoch res = js_add (getCurrentEpoch W) (cfg_maxEpoch (config s))
         \<and> cfg_maxEpoch (config s') = cfg_maxEpoch (config s)"
  using assms
  by (auto simp: prepareForJWT_def Let_def split: option.splits if_splits)

lemma bitlen_example: "bitlen 9007199254741091 = 54"
  by (simp add: bitlen.simps)

lemma to_double_example: "to_double 9007199254741091 = Num 9007199254741092"
proof -
  have "round_nat 9007199254741091 = 9007199254741092"
    by (simp add: round_nat_def bitlen_example Let_def)
  moreover have "\<not> (2::nat) ^ 1024 \<le> 9007199254741092"
  proof -
    have "(9007199254741092::nat) < 2 ^ 54" by simp
    also have "(2::nat) ^ 54 < 2 ^ 1024"
      by (rule power_strict_increasing) simp_all
    finally show ?thesis by simp
  qed
  ultimately show ?thesis
    by (simp add: to_double_def Let_def)
qed

lemma wide_window_session_run:
  "new_ZkLogin [] (sample_config_in\<lparr>in_maxEpoch := Some (Num 9007199254740991)\<rparr>)
     = Inr (created_session\<lparr>config := sample_config\<lparr>cfg_maxEpoch := Num 9007199254740991\<rparr>\<rparr>)
   \<and> snd (generateEphemeralKeyPair sample_env sample_keys
        (created_session\<lparr>config := sample_config\<lparr>cfg_maxEpoch := Num 9007199254740991\<rparr>\<rparr>))
     = wide_window_session"
  by (simp add: new_ZkLogin_def sample_config_in_def created_session_def sample_config_def
      or_str_def or_num_def or_bool_def lookup_provider_def PROVIDERS_def reset_def
      generateEphemeralKeyPair_def wide_window_session_def keyed_session_def Let_def)

text \<open>
  Claim C5, as stated, fails for large numbers: \<open>maxEpoch\<close> is computed by JavaScript's
  \<^verbatim>\<open>+\<close> on doubles. With a configured window of \<open>2^53 - 1 = 9007199254740991\<close> and a
  current epoch of 100 the session's \<open>maxEpoch\<close> is 9007199254741092, one more than the
  sum.
\<close>

theorem prepareForJWT_maxEpoch_rounded:
  "new_ZkLogin [] (sample_config_in\<lparr>in_maxEpoch := Some (Num 9007199254740991)\<rparr>)
     = Inr (created_session\<lparr>config := sample_config\<lparr>cfg_maxEpoch := Num 9007199254740991\<rparr>\<rparr>)
   \<and> snd (generateEphemeralKeyPair sample_env sample_keys
        (created_session\<lparr>config := sample_config\<lparr>cfg_maxEpoch := Num 9007199254740991\<rparr>\<rparr>))
     = wide_window_session
   \<and> cfg_maxEpoch (config wide_window_session) = Num 9007199254740991
   \<and> currentEpoch (snd (prepareForJWT sample_env sample_prep wide_window_session None None None))
       = Some (Num 100)
   \<and> maxEpoch (snd (prepareForJWT sample_env sample_prep wide_window_session None None None))
       = Some (Num 9007199254741092)
   \<and> (100::int) + 9007199254740991 = 9007199254741091"
proof -
  have "cfg_maxEpoch (config wide_window_session) = Num 9007199254740991
   \<and> currentEpoch (snd (prepareForJWT sample_env sample_prep wide_window_session None None None))
       = Some (Num 100)
   \<and> maxEpoch (snd (prepareForJWT sample_env sample_prep wide_window_session None None None))
       = Some (Num 9007199254741092)
   \<and> (100::int) + 9007199254740991 = 9007199254741091"
    by (simp add: prepareForJWT_def wide_window_session_def keyed_session_def
        created_session_def sample_config_def sample_prep_def sample_env_def sample_keys_def
        getCurrentEpoch_def or_str_def Let_def to_double_example)
  with wide_window_session_run show ?thesis by blast
qed

text \<open>
  Claim C5, amended. After a successful \<open>prepareForJWT\<close> the session's \<open>maxEpoch\<close> is
  JavaScript's sum of the current epoch and the configured window \<open>config.maxEpoch\<close>,
  and both numbers are returned. When the two are integers \<open>a\<close> and \<open>b\<close> whose sum is
  below \<open>2^53\<close> in magnitude, \<open>maxEpoch\<close> is exactly \<open>a + b\<close>; with a current epoch of 100
  and a window of 10 it is 110.
\<close>

theorem prepareForJWT_maxEpoch:
  assumes "prepareForJWT E W s p c u = (Inr res, s')"
  shows "currentEpoch s' = Some (getCurrentEpoch W)
         \<and> pr_currentEpoch res = getCurrentEpoch W
         \<and> maxEpoch s' = Some (js_add (getCurrentEpoch W) (cfg_maxEpoch (config s')))
         \<and> pr_maxEpoch res = js_add (getCurrentEpoch W) (cfg_maxEpoch (config s'))
         \<and> (getCurrentEpoch W = Num a \<and> cfg_maxEpoch (config s) = Num b \<and> \<bar>a + b\<bar> < 2 ^ 53
              \<longrightarrow> currentEpoch s' = Some (Num a) \<and> maxEpoch s' = Some (Num (a + b))
                  \<and> pr_currentEpoch res = Num a \<and> pr_maxEpoch res = Num (a + b))
         \<and> (getCurrentEpoch W = Num 100 \<and> cfg_maxEpoch (config s) = Num 10
              \<longrightarrow> currentEpoch s' = Some (Num 100) \<and> maxEpoch s' = Some (Num 110))"
proof -
  note st = prepareForJWT_success_state [OF assms]
  have exact: "getCurrentEpoch W = Num a \<and> cfg_maxEpoch (config s) = Num b \<and> \<bar>a + b\<bar> < 2 ^ 53
      \<longrightarrow> js_add (getCurrentEpoch W) (cfg_maxEpoch (config s)) = Num (a + b)"
    using js_add_exact [of a b] by auto
  have hundred: "getCurrentEpoch W = Num 100 \<and> cfg_maxEpoch (config s) = Num 10
      \<longrightarrow> js_add (getCurrentEpoch W) (cfg_maxEpoch (config s)) = Num 110"
    using js_add_100_10 by auto
  show ?thesis
    using st exact hundred by auto
qed

lemma sample_prepare_result:
  "prepareForJWT sample_env sample_prep keyed_session None None None
     = (Inr \<lparr>pr_randomness = ''12345'', pr_nonce = ''n1'', pr_currentEpoch = Num 100,
             pr_maxEpoch = Num 110\<rparr>, prepared_session)"
  by (simp add: prepareForJWT_def prepared_session_def keyed_session_def created_session_def
      sample_config_def sample_prep_def sample_env_def sample_keys_def getCurrentEpoch_def
      or_str_def Let_def dec_int_def dec_nat.simps digit_char_def js_add_100_10
      del: js_add.simps)

theorem prepareForJWT_maxEpoch_witness:
  "prepareForJWT sample_env sample_prep keyed_session None None None
     = (Inr \<lparr>pr_randomness = ''12345'', pr_nonce = ''n1'', pr_currentEpoch = Num 100,
             pr_maxEpoch = Num 110\<rparr>, prepared_session)
   \<and> getCurrentEpoch sample_prep = Num 100
   \<and> cfg_maxEpoch (config keyed_session) = Num 10
   \<and> \<bar>(100::int) + 10\<bar> < 2 ^ 53
   \<and> currentEpoch prepared_session = Some (Num 100)
   \<and> maxEpoch prepared_session = Some (Num (100 + 10))
   \<and> maxEpoch prepared_session = Some (Num 110)"
  using prepareForJWT_maxEpoch [OF sample_prepare_result, of 100 10] sample_prepare_result
  by (simp add: getCurrentEpoch_def sample_prep_def keyed_session_def created_session_def
      sample_config_def)

text \<open>
  Claim C6. When the epoch fetch fails, \<open>getCurrentEpoch\<close> answers 100 and
  \<open>prepareForJWT\<close> behaves exactly as if the network had answered 100: no error is
  raised on account of the failed fetch. Once the fetch is reached (a key pair exists
  and client id, provider and redirect URL are set) the step completes, with current
  epoch 100 and \<open>maxEpoch\<close> 100 plus the window.
\<close>

theorem prepareForJWT_epoch_fallback:
  assumes "epoch_fetch W = None"
  shows "getCurrentEpoch W = Num 100
         \<and> prepareForJWT E W s p c u = prepareForJWT E (W\<lparr>epoch_fetch := Some (Num 100)\<rparr>) s p c u
         \<and> (ephemeralKeyPair s \<noteq> None
              \<and> or_str c (clientId (config s)) \<noteq> []
              \<and> or_str p (provider (config s)) \<noteq> []
              \<and> or_str u (redirectUrl (config s)) \<noteq> []
            \<longrightarrow> (\<exists>res s'. prepareForJWT E W s p c u = (Inr res, s')
                    \<and> pr_currentEpoch res = Num 100
                    \<and> currentEpoch s' = Some (Num 100)
                    \<and> maxEpoch s' = Some (js_add (Num 100) (cfg_maxEpoch (config s)))
                    \<and> nonce s' = Some (pr_nonce res)))"
  using assms
  by (auto simp: prepareForJWT_def getCurrentEpoch_def Let_def split: option.splits)

theorem prepareForJWT_epoch_fallback_witness:
  "epoch_fetch (sample_prep\<lparr>epoch_fetch := None\<rparr>) = None
   \<and> ephemeralKeyPair keyed_session \<noteq> None
   \<and> or_str None (clientId (config keyed_session)) \<noteq> []
   \<and> or_str None (provider (config keyed_session)) \<noteq> []
   \<and> or_str None (redirectUrl (config keyed_session)) \<noteq> []
   \<and> prepareForJWT sample_env (sample_prep\<lparr>epoch_fetch := None\<rparr>) keyed_session None None None
       = (Inr \<lparr>pr_randomness = ''12345'', pr_nonce = ''n1'', pr_currentEpoch = Num 100,
               pr_maxEpoch = Num 110\<rparr>, prepared_session)"
  using prepareForJWT_epoch_fallback
    [of "sample_prep\<lparr>epoch_fetch := None\<rparr>" sample_env keyed_session None None None]
    sample_prepare_result
  by (simp add: sample_prep_def keyed_session_def created_session_def sample_config_def
      or_str_def)

section \<open>Processing a token before preparation\<close>

lemma unset_not_prepared: "randomness s = None \<or> nonce s = None \<Longrightarrow> \<not> is_prepared s"
  by (auto simp: is_prepared_def)

text \<open>
  Claim C2. On a session whose randomness or nonce is unset (or, more generally, falsy),
  \<open>processJWT\<close> fails for every token with "JWT preparation not completed. Call
  prepareForJWT() first." and leaves the session untouched: the token is neither stored
  nor decoded, and no nonce comparison takes place.
\<close>

theorem processJWT_not_prepared:
  assumes "randomness s = None \<or> nonce s = None \<or> \<not> is_prepared s"
  shows "processJWT E W s tok = (Inl (FailedToProcessJWT PreparationNotCompleted), s)"
proof -
  have "\<not> is_prepared s"
    using assms unset_not_prepared [of s] by blast
  then show ?thesis
    by (auto simp: processJWT_def is_prepared_def split: option.splits)
qed

theorem processJWT_not_prepared_witness:
  "\<not> is_prepared keyed_session
   \<and> randomness keyed_session = None \<and> nonce keyed_session = None
   \<and> processJWT sample_env sample_salt_world keyed_session token_user123
       = (Inl (FailedToProcessJWT PreparationNotCompleted), keyed_session)"
  using processJWT_not_prepared [of keyed_session sample_env sample_salt_world token_user123]
  by (simp add: is_prepared_def keyed_session_def created_session_def)

section \<open>The authorization URL\<close>

lemma form_encode_keys:
  "form_encode ''client_id'' = ''client_id''"
  "form_encode ''redirect_uri'' = ''redirect_uri''"
  "form_encode ''response_type'' = ''response_type''"
  "form_encode ''scope'' = ''scope''"
  "form_encode ''state'' = ''state''"
  "form_encode ''response_mode'' = ''response_mode''"
  "form_encode ''nonce'' = ''nonce''"
  by (simp_all add: form_encode_def form_encode_byte_def form_unreserved_def)

lemma form_encode_values:
  "form_encode ''code'' = ''code''"
  "form_encode ''id_token'' = ''id_token''"
  "form_encode ''query'' = ''query''"
  "form_encode ''fragment'' = ''fragment''"
  "form_encode ''openid email profile'' = ''openid+email+profile''"
  by (simp_all add: form_encode_def form_encode_byte_def form_unreserved_def)

lemma isCodeFlow_iff: "isCodeFlow s = (oauthFlow (config s) = ''code'')"
  by (auto simp: isCodeFlow_def or_str_def)

lemma lookup_provider_table:
  "lookup_provider ''google'' =
     Entry \<lparr>pv_name = ''Google'', authUrl = ''https://accounts.google.com/o/oauth2/v2/auth'',
            pv_scope = ''openid email profile'', responseType = ''id_token''\<rparr>"
  "lookup_provider ''facebook'' =
     Entry \<lparr>pv_name = ''Facebook'', authUrl = ''https://www.facebook.com/v18.0/dialog/oauth'',
            pv_scope = ''openid email'', responseType = ''id_token''\<rparr>"
  "lookup_provider ''twitch'' =
     Entry \<lparr>pv_name = ''Twitch'', authUrl = ''https://id.twitch.tv/oauth2/authorize'',
            pv_scope = ''openid user:read:email'', responseType = ''id_token''\<rparr>"
  "lookup_provider ''apple'' =
     Entry \<lparr>pv_name = ''Apple'', authUrl = ''https://appleid.apple.com/auth/authorize'',
            pv_scope = ''openid email name'', responseType = ''id_token''\<rparr>"
  by (simp_all add: lookup_provider_def PROVIDERS_def)

lemma lookup_provider_member:
  assumes "(name, p) \<in> set PROVIDERS"
  shows "lookup_provider name = Entry p"
  using assms lookup_provider_table
  by (auto simp: PROVIDERS_def)

text \<open>
  What \<open>buildOAuthUrl\<close> does for every entry \<open>(name, p)\<close> of the \<open>PROVIDERS\<close> table: the
  URL is that entry's \<open>authUrl\<close> followed by the client id, the redirect URL, the
  response type, a scope and the state. Unless the configured flow is \<^verbatim>\<open>'code'\<close> (so in
  particular for \<^verbatim>\<open>'implicit'\<close>) the response type is \<^verbatim>\<open>id_token\<close> and the session's
  nonce is the last parameter; for \<^verbatim>\<open>'code'\<close> the response type is \<^verbatim>\<open>code\<close> and there is
  no nonce parameter. The scope is \<^verbatim>\<open>openid email profile\<close> whatever \<open>pv_scope p\<close> is.
\<close>

lemma buildOAuthUrl_flows:
  assumes "(provider (config s), p) \<in> set PROVIDERS"
  shows "(oauthFlow (config s) \<noteq> ''code'' \<and> nonce s = Some n \<longrightarrow>
            buildOAuthUrl s sid gen =
              Inr (authUrl p @ ''?client_id='' @ form_encode (clientId (config s))
                   @ ''&redirect_uri='' @ form_encode (redirectUrl (config s))
                   @ ''&response_type=id_token&scope=openid+email+profile&state=''
                   @ form_encode (or_str sid gen)
                   @ ''&response_mode=fragment&nonce='' @ form_encode n)
            \<and> map_of (oauthParams s (or_str sid gen)) ''nonce'' = Some n)
         \<and> (oauthFlow (config s) = ''code'' \<longrightarrow>
            buildOAuthUrl s sid gen =
              Inr (authUrl p @ ''?client_id='' @ form_encode (clientId (config s))
                   @ ''&redirect_uri='' @ form_encode (redirectUrl (config s))
                   @ ''&response_type=code&scope=openid+email+profile&state=''
                   @ form_encode (or_str sid gen)
                   @ ''&response_mode=query'')
            \<and> map_of (oauthParams s (or_str sid gen)) ''nonce'' = None)"
  using lookup_provider_member [OF assms]
  by (simp add: buildOAuthUrl_def oauthParams_def params_toString_def isCodeFlow_iff
      nonce_toString_def form_encode_keys form_encode_values Let_def)

lemma buildOAuthUrl_google:
  "buildOAuthUrl prepared_session (Some ''s1'') ''zklogin_0_x''
     = Inr (''https://accounts.google.com/o/oauth2/v2/auth?client_id=test-client''
            @ ''&redirect_uri=http%3A%2F%2Flocalhost%3A3000%2Fcallback''
            @ ''&response_type=id_token&scope=openid+email+profile&state=s1''
            @ ''&response_mode=fragment&nonce=n1'')
   \<and> buildOAuthUrl (prepared_session\<lparr>config := sample_config\<lparr>oauthFlow := ''code''\<rparr>\<rparr>)
        (Some ''s1'') ''zklogin_0_x''
     = Inr (''https://accounts.google.com/o/oauth2/v2/auth?client_id=test-client''
            @ ''&redirect_uri=http%3A%2F%2Flocalhost%3A3000%2Fcallback''
            @ ''&response_type=code&scope=openid+email+profile&state=s1''
            @ ''&response_mode=query'')"
  using buildOAuthUrl_flows
    [where s = prepared_session and n = "''n1''" and sid = "Some ''s1''"
       and gen = "''zklogin_0_x''"
       and p = "\<lparr>pv_name = ''Google'', authUrl = ''https://accounts.google.com/o/oauth2/v2/auth'',
                 pv_scope = ''openid email profile'', responseType = ''id_token''\<rparr>"]
    buildOAuthUrl_flows
    [where s = "prepared_session\<lparr>config := sample_config\<lparr>oauthFlow := ''code''\<rparr>\<rparr>"
       and n = "''n1''" and sid = "Some ''s1''" and gen = "''zklogin_0_x''"
       and p = "\<lparr>pv_name = ''Google'', authUrl = ''https://accounts.google.com/o/oauth2/v2/auth'',
                 pv_scope = ''openid email profile'', responseType = ''id_token''\<rparr>"]
  by (simp add: prepared_session_def keyed_session_def created_session_def sample_config_def
      PROVIDERS_def or_str_def form_encode_def form_encode_byte_def
      form_unreserved_def hex_char_def)

lemma twitch_session_run:
  "new_ZkLogin [] (sample_config_in\<lparr>in_provider := Some ''twitch''\<rparr>)
     = Inr (created_session\<lparr>config := sample_config\<lparr>provider := ''twitch''\<rparr>\<rparr>)
   \<and> snd (generateEphemeralKeyPair sample_env sample_keys
        (created_session\<lparr>config := sample_config\<lparr>provider := ''twitch''\<rparr>\<rparr>))
     = keyed_session\<lparr>config := sample_config\<lparr>provider := ''twitch''\<rparr>\<rparr>
   \<and> snd (prepareForJWT sample_env sample_prep
        (keyed_session\<lparr>config := sample_config\<lparr>provider := ''twitch''\<rparr>\<rparr>) None None None)
     = twitch_session"
  by (simp add: new_ZkLogin_def sample_config_in_def created_session_def sample_config_def
      or_str_def or_num_def or_bool_def lookup_provider_def PROVIDERS_def reset_def
      generateEphemeralKeyPair_def keyed_session_def prepareForJWT_def twitch_session_def
      prepared_session_def sample_prep_def sample_env_def sample_keys_def getCurrentEpoch_def
      Let_def js_add_100_10 del: js_add.simps)

text \<open>
  Claim C8 holds for the endpoint, the client id, the redirect URL, the state and the
  two flows (\<open>buildOAuthUrl_flows\<close>), but not for the scopes. The \<open>PROVIDERS\<close> table
  gives \<^verbatim>\<open>'twitch'\<close> the scope \<^verbatim>\<open>openid user:read:email\<close>, which would be sent as
  \<^verbatim>\<open>openid+user%3Aread%3Aemail\<close>; the URL built for a session configured with that
  provider requests \<^verbatim>\<open>openid email profile\<close>, the constant at zklogin.js:248.
\<close>

theorem buildOAuthUrl_twitch_scope:
  "provider (config twitch_session) = ''twitch''
   \<and> lookup_provider ''twitch''
       = Entry \<lparr>pv_name = ''Twitch'', authUrl = ''https://id.twitch.tv/oauth2/authorize'',
                pv_scope = ''openid user:read:email'', responseType = ''id_token''\<rparr>
   \<and> form_encode ''openid user:read:email'' = ''openid+user%3Aread%3Aemail''
   \<and> buildOAuthUrl twitch_session (Some ''s1'') ''zklogin_0_x''
       = Inr (''https://id.twitch.tv/oauth2/authorize?client_id=test-client''
              @ ''&redirect_uri=http%3A%2F%2Flocalhost%3A3000%2Fcallback''
              @ ''&response_type=id_token&scope=openid+email+profile&state=s1''
              @ ''&response_mode=fragment&nonce=n1'')"
  by (simp add: twitch_session_def prepared_session_def keyed_session_def created_session_def
      sample_config_def lookup_provider_table buildOAuthUrl_def oauthParams_def
      params_toString_def isCodeFlow_iff nonce_toString_def Let_def or_str_def
      form_encode_def form_encode_byte_def form_unreserved_def hex_char_def)

theorem buildOAuthUrl_twitch_scope_witness:
  "buildOAuthUrl twitch_session (Some ''s1'') ''zklogin_0_x''
     = Inr (''https://id.twitch.tv/oauth2/authorize?client_id=test-client''
            @ ''&redirect_uri=http%3A%2F%2Flocalhost%3A3000%2Fcallback''
            @ ''&response_type=id_token&scope=openid+email+profile&state=s1''
            @ ''&response_mode=fragment&nonce=n1'')
   \<and> pv_scope (case lookup_provider (provider (config twitch_session)) of
                  Entry p \<Rightarrow> p) = ''openid user:read:email''"
  using buildOAuthUrl_twitch_scope by simp

section \<open>Processing a token\<close>

lemma decodeJWT_Inr_parts:
  assumes "decodeJWT E tok = Inr d"
  shows "\<exists>p0 p1 p2. split_dot tok = [p0, p1, p2]
           \<and> parseSegment E p0 = Some (dj_header d)
           \<and> parseSegment E p1 = Some (dj_payload d)"
  using assms
  by (auto simp: decodeJWT_def split: list.splits option.splits)

lemma decodeJWT_Inr_valid: "decodeJWT E tok = Inr d \<Longrightarrow> isValidJWT tok"
  by (auto simp: isValidJWT_def dest: decodeJWT_Inr_parts)

lemma isValidJWT_not_empty: "isValidJWT tok \<Longrightarrow> tok \<noteq> []"
  by (auto simp: isValidJWT_def)

lemma extractSubFromJWT_decoded:
  assumes "decodeJWT E tok = Inr d" and "dj_payload d \<noteq> JNull"
  shows "extractSubFromJWT E tok =
           (if truthy (get_prop (dj_payload d) ''sub'')
            then Inr (get_prop (dj_payload d) ''sub'')
            else Inl (FailedToExtractSubject MissingSub))"
  using decodeJWT_Inr_parts [OF assms(1)] assms(2)
  by (auto simp: extractSubFromJWT_def read_prop_def)

lemma resolveSalt_stored_token:
  "resolveSalt W (s\<lparr>jwt := x, decodedJWT := y\<rparr>) subject = resolveSalt W s subject"
  by (simp add: resolveSalt_def split: option.splits)

lemma resolveSalt_no_database:
  "\<not> useDatabase (config s) \<Longrightarrow>
     resolveSalt W s subject = (Inr (cfg_userSalt (config s)), saltDatabase s)"
  by (simp add: resolveSalt_def split: option.splits)

lemma is_preparedD:
  assumes "is_prepared s"
  obtains r n where "randomness s = Some r" and "truthy_rand r"
    and "nonce s = Some n" and "n \<noteq> []"
  using assms
  by (cases "randomness s"; cases "nonce s") (auto simp: is_prepared_def)

lemma processJWT_decoded:
  assumes "is_prepared s" and "nonce s = Some n" and "decodeJWT E tok = Inr d"
  shows "processJWT E W s tok =
     (case read_prop (dj_payload d) ''nonce'' of
        Inl e \<Rightarrow> (Inl (FailedToProcessJWT e), s\<lparr>jwt := Some tok, decodedJWT := Some d\<rparr>)
      | Inr v \<Rightarrow>
          if v \<noteq> Val (JStr n)
          then (if jsval_toString_throws v
                then (Inl (FailedToProcessJWT TypeError),
                      s\<lparr>jwt := Some tok, decodedJWT := Some d\<rparr>)
                else (Inl (FailedToProcessJWT (NonceMismatch n v)),
                      s\<lparr>jwt := Some tok, decodedJWT := Some d\<rparr>))
          else
            (case extractSubFromJWT E tok of
               Inl e \<Rightarrow> (Inl (FailedToProcessJWT e), s\<lparr>jwt := Some tok, decodedJWT := Some d\<rparr>)
             | Inr subject \<Rightarrow>
                 (case resolveSalt W s subject of
                    (Inl e, db') \<Rightarrow>
                      (Inl (FailedToProcessJWT e),
                       s\<lparr>jwt := Some tok, decodedJWT := Some d, saltDatabase := db'\<rparr>)
                  | (Inr salt, db') \<Rightarrow>
                      (case deriveAddress E tok salt of
                         Inl e \<Rightarrow>
                           (Inl (FailedToProcessJWT e),
                            s\<lparr>jwt := Some tok, decodedJWT := Some d, saltDatabase := db',
                              userSalt := Some salt\<rparr>)
                       | Inr a \<Rightarrow>
                           (Inr \<lparr>res_jwt = tok, res_userAddress = a, res_subject = subject,
                                 res_userSalt = salt, res_decodedJWT = d\<rparr>,
                            s\<lparr>jwt := Some tok, decodedJWT := Some d, saltDatabase := db',
                              userSalt := Some salt, userAddress := Some a\<rparr>)))))"
proof -
  from assms(1) obtain r n' where r: "randomness s = Some r" "truthy_rand r"
    and n': "nonce s = Some n'" "n' \<noteq> []"
    by (rule is_preparedD)
  with assms(2) have n: "n \<noteq> []" by simp
  have valid: "isValidJWT tok" using assms(3) by (rule decodeJWT_Inr_valid)
  show ?thesis
    using r assms(2,3) n valid
    by (simp add: processJWT_def resolveSalt_stored_token Let_def
        split: sum.splits prod.splits)
qed

lemma processJWT_nonce_mismatch:
  assumes "is_prepared s" and "nonce s = Some n" and "decodeJWT E tok = Inr d"
    and "dj_payload d \<noteq> JNull"
    and "get_prop (dj_payload d) ''nonce'' \<noteq> Val (JStr n)"
  shows "processJWT E W s tok =
           (Inl (FailedToProcessJWT
                   (if jsval_toString_throws (get_prop (dj_payload d) ''nonce'') then TypeError
                    else NonceMismatch n (get_prop (dj_payload d) ''nonce''))),
            s\<lparr>jwt := Some tok, decodedJWT := Some d\<rparr>)"
  using assms(4,5)
  by (simp add: processJWT_decoded [OF assms(1-3)] read_prop_def)

lemma processJWT_null_payload:
  assumes "is_prepared s" and "nonce s = Some n" and "decodeJWT E tok = Inr d"
    and "dj_payload d = JNull"
  shows "processJWT E W s tok =
           (Inl (FailedToProcessJWT TypeError), s\<lparr>jwt := Some tok, decodedJWT := Some d\<rparr>)"
  using assms(4)
  by (simp add: processJWT_decoded [OF assms(1-3)] read_prop_def)

lemma processJWT_nonce_match:
  assumes "is_prepared s" and "nonce s = Some n" and "decodeJWT E tok = Inr d"
    and "get_prop (dj_payload d) ''nonce'' = Val (JStr n)"
    and "truthy (get_prop (dj_payload d) ''sub'')"
    and "resolveSalt W s (get_prop (dj_payload d) ''sub'') = (Inr salt, db')"
    and "deriveAddress E tok salt = Inr a"
  shows "processJWT E W s tok =
           (Inr \<lparr>res_jwt = tok, res_userAddress = a,
                 res_subject = get_prop (dj_payload d) ''sub'',
                 res_userSalt = salt, res_decodedJWT = d\<rparr>,
            s\<lparr>jwt := Some tok, decodedJWT := Some d, saltDatabase := db',
              userSalt := Some salt, userAddress := Some a\<rparr>)"
proof -
  have payload: "dj_payload d \<noteq> JNull"
    using assms(4) by (cases "dj_payload d") auto
  have sub: "extractSubFromJWT E tok = Inr (get_prop (dj_payload d) ''sub'')"
    using extractSubFromJWT_decoded [OF assms(3) payload] assms(5) by simp
  show ?thesis
    using payload assms(4,6,7) sub
    by (simp add: processJWT_decoded [OF assms(1-3)] read_prop_def)
qed


lemma processJWT_success_salt:
  assumes "processJWT E W s tok = (Inr res, s')"
  shows "\<exists>subject db'. resolveSalt W s subject = (Inr (res_userSalt res), db')
           \<and> userSalt s' = Some (res_userSalt res) \<and> config s' = config s"
  using assms
  by (fastforce simp: processJWT_def Let_def resolveSalt_stored_token
      split: option.splits if_splits sum.splits prod.splits)

subsection \<open>Concrete tokens\<close>

lemma sample_env_parse: "parseSegment sample_env = map_of sample_segments"
  by (simp add: sample_env_def)

lemma parse_sample_segments:
  "map_of sample_segments seg_header = Some header_json"
  "map_of sample_segments seg_null = Some JNull"
  "map_of sample_segments seg_user123 = Some (payload_json ''n1'' ''user123'')"
  "map_of sample_segments seg_user456 = Some (payload_json ''n1'' ''user456'')"
  "map_of sample_segments seg_other_nonce = Some (payload_json ''n2'' ''user123'')"
  "map_of sample_segments seg_empty_sub = Some (JObj [(''nonce'', JStr ''n1''), (''sub'', JStr [])])"
  "map_of sample_segments seg_unprintable_nonce =
     Some (JObj [(''nonce'', JObj [(''toString'', JNull)]), (''sub'', JStr ''user123''),
                 (''aud'', JStr ''app'')])"
  by (simp_all add: sample_segments_def seg_header_def seg_user123_def seg_user456_def
      seg_other_nonce_def seg_empty_sub_def seg_null_def seg_unprintable_nonce_def
      header_json_def payload_json_def)

lemma split_three:
  assumes "CHR ''.'' \<notin> set a" and "CHR ''.'' \<notin> set b" and "CHR ''.'' \<notin> set c"
  shows "split_dot (join_dot [a, b, c]) = [a, b, c]"
  using assms by (intro split_dot_join) auto

lemma segments_dot_free:
  "CHR ''.'' \<notin> set seg_header" "CHR ''.'' \<notin> set seg_null"
  "CHR ''.'' \<notin> set seg_user123" "CHR ''.'' \<notin> set seg_user456"
  "CHR ''.'' \<notin> set seg_other_nonce" "CHR ''.'' \<notin> set seg_empty_sub"
  "CHR ''.'' \<notin> set seg_unprintable_nonce"
  "CHR ''.'' \<notin> set ''sig''"
  by (simp_all add: seg_header_def seg_user123_def seg_user456_def seg_other_nonce_def
      seg_empty_sub_def seg_null_def seg_unprintable_nonce_def)

lemma split_token_user123: "split_dot token_user123 = [seg_header, seg_user123, ''sig'']"
  unfolding token_user123_def by (rule split_three) (simp_all add: segments_dot_free)

lemma decode_token_user123:
  "decodeJWT sample_env token_user123 =
     Inr (decoded_of seg_header header_json seg_user123 (payload_json ''n1'' ''user123''))"
  by (simp add: decodeJWT_def split_token_user123 sample_env_parse
      parse_sample_segments decoded_of_def)

lemma split_token_user456: "split_dot token_user456 = [seg_header, seg_user456, ''sig'']"
  unfolding token_user456_def by (rule split_three) (simp_all add: segments_dot_free)

lemma decode_token_user456:
  "decodeJWT sample_env token_user456 =
     Inr (decoded_of seg_header header_json seg_user456 (payload_json ''n1'' ''user456''))"
  by (simp add: decodeJWT_def split_token_user456 sample_env_parse
      parse_sample_segments decoded_of_def)



lemma split_token_null_header: "split_dot token_null_header = [seg_null, seg_other_nonce, ''sig'']"
  unfolding token_null_header_def by (rule split_three) (simp_all add: segments_dot_free)

lemma decode_token_null_header:
  "decodeJWT sample_env token_null_header =
     Inr (decoded_of seg_null JNull seg_other_nonce (payload_json ''n2'' ''user123''))"
  by (simp add: decodeJWT_def split_token_null_header
      sample_env_parse parse_sample_segments decoded_of_def)



lemma split_token_null_payload:
  "split_dot token_null_payload = [seg_header, seg_null, ''sig'']"
  unfolding token_null_payload_def by (rule split_three) (simp_all add: segments_dot_free)

lemma decode_token_null_payload:
  "decodeJWT sample_env token_null_payload =
     Inr (decoded_of seg_header header_json seg_null JNull)"
  by (simp add: decodeJWT_def split_token_null_payload sample_env_parse
      parse_sample_segments decoded_of_def)

lemma split_token_unprintable_nonce:
  "split_dot token_unprintable_nonce = [seg_header, seg_unprintable_nonce, ''sig'']"
  unfolding token_unprintable_nonce_def
  by (rule split_three) (simp_all add: segments_dot_free)

lemma decode_token_unprintable_nonce:
  "decodeJWT sample_env token_unprintable_nonce =
     Inr (decoded_of seg_header header_json seg_unprintable_nonce
            (JObj [(''nonce'', JObj [(''toString'', JNull)]), (''sub'', JStr ''user123''),
                   (''aud'', JStr ''app'')]))"
  by (simp add: decodeJWT_def split_token_unprintable_nonce sample_env_parse
      parse_sample_segments decoded_of_def)

lemma prepared_session_fields:
  "is_prepared prepared_session"
  "nonce prepared_session = Some ''n1''"
  "randomness prepared_session = Some (RBig 12345)"
  "userAddress prepared_session = None"
  "userSalt prepared_session = None"
  "\<not> useDatabase (config prepared_session)"
  "cfg_userSalt (config prepared_session) = ''0''"
  "saltDatabase prepared_session = None"
  by (simp_all add: is_prepared_def prepared_session_def keyed_session_def created_session_def
      sample_config_def)

lemma sample_deriveAddress: "deriveAddress sample_env tok salt = Inr (''0xaddr'' @ salt)"
  by (simp add: deriveAddress_def sample_env_def)

lemma payload_json_props:
  "get_prop (payload_json n sub) ''nonce'' = Val (JStr n)"
  "get_prop (payload_json n sub) ''sub'' = Val (JStr sub)"
  "read_prop (payload_json n sub) ''nonce'' = Inr (Val (JStr n))"
  "dj_payload (decoded_of h hj p pj) = pj"
  "dj_header (decoded_of h hj p pj) = hj"
  by (simp_all add: payload_json_def read_prop_def decoded_of_def)

lemma sample_resolveSalt:
  "resolveSalt sample_salt_world prepared_session subject = (Inr ''0'', None)"
  using resolveSalt_no_database [of prepared_session sample_salt_world subject]
  by (simp add: prepared_session_fields)

lemma sample_process_user123:
  "processJWT sample_env sample_salt_world prepared_session token_user123 =
     (Inr \<lparr>res_jwt = token_user123, res_userAddress = ''0xaddr0'',
           res_subject = Val (JStr ''user123''), res_userSalt = ''0'',
           res_decodedJWT =
             decoded_of seg_header header_json seg_user123 (payload_json ''n1'' ''user123'')\<rparr>,
      prepared_session
        \<lparr>jwt := Some token_user123,
         decodedJWT :=
           Some (decoded_of seg_header header_json seg_user123 (payload_json ''n1'' ''user123'')),
         saltDatabase := None, userSalt := Some ''0'', userAddress := Some ''0xaddr0''\<rparr>)"
  using processJWT_nonce_match
    [OF prepared_session_fields(1) prepared_session_fields(2) decode_token_user123,
     where W = sample_salt_world and salt = "''0''" and db' = None and a = "''0xaddr0''"]
  by (simp add: payload_json_props sample_resolveSalt sample_deriveAddress)

lemma sample_process_user456:
  "processJWT sample_env sample_salt_world prepared_session token_user456 =
     (Inr \<lparr>res_jwt = token_user456, res_userAddress = ''0xaddr0'',
           res_subject = Val (JStr ''user456''), res_userSalt = ''0'',
           res_decodedJWT =
             decoded_of seg_header header_json seg_user456 (payload_json ''n1'' ''user456'')\<rparr>,
      prepared_session
        \<lparr>jwt := Some token_user456,
         decodedJWT :=
           Some (decoded_of seg_header header_json seg_user456 (payload_json ''n1'' ''user456'')),
         saltDatabase := None, userSalt := Some ''0'', userAddress := Some ''0xaddr0''\<rparr>)"
  using processJWT_nonce_match
    [OF prepared_session_fields(1) prepared_session_fields(2) decode_token_user456,
     where W = sample_salt_world and salt = "''0''" and db' = None and a = "''0xaddr0''"]
  by (simp add: payload_json_props sample_resolveSalt sample_deriveAddress)

subsection \<open>The salt without the database\<close>

lemma generateEphemeralKeyPair_config:
  "config (snd (generateEphemeralKeyPair E W s)) = config s"
  by (simp add: generateEphemeralKeyPair_def Let_def)

lemma prepareForJWT_keeps_salt_config:
  "cfg_userSalt (config (snd (prepareForJWT E W s p c u))) = cfg_userSalt (config s)
   \<and> useDatabase (config (snd (prepareForJWT E W s p c u))) = useDatabase (config s)"
  by (simp add: prepareForJWT_def Let_def split: option.splits)

lemma processJWT_config: "config (snd (processJWT E W s tok)) = config s"
  by (simp add: processJWT_def Let_def split: option.splits sum.splits prod.splits)

lemma new_ZkLogin_defaults:
  assumes "new_ZkLogin db0 cin = Inr s0"
  shows "(in_useDatabase cin = None \<longrightarrow> \<not> useDatabase (config s0))
         \<and> (in_userSalt cin = None \<longrightarrow> cfg_userSalt (config s0) = ''0'')"
  using assms
  by (auto simp: new_ZkLogin_def Let_def reset_def or_str_def or_bool_def split: if_splits)

text \<open>
  Claim C10. With \<open>useDatabase\<close> false, a successful \<open>processJWT\<close> stores the configured
  salt \<open>config.userSalt\<close> whatever the token's subject is: two successful runs on an
  instance store the same salt (no step changes \<open>useDatabase\<close> or the configured salt,
  see the three lemmas above). The constructor's defaults are \<open>useDatabase\<close> false and
  salt \<^verbatim>\<open>'0'\<close>.
\<close>

theorem processJWT_configured_salt:
  assumes "\<not> useDatabase (config s1)" and "\<not> useDatabase (config s2)"
    and "cfg_userSalt (config s2) = cfg_userSalt (config s1)"
    and "processJWT E W1 s1 tok1 = (Inr res1, s1')"
    and "processJWT E W2 s2 tok2 = (Inr res2, s2')"
  shows "userSalt s1' = Some (cfg_userSalt (config s1))
         \<and> userSalt s2' = userSalt s1'
         \<and> res_userSalt res2 = res_userSalt res1
         \<and> (new_ZkLogin db0 cin = Inr s0 \<and> in_useDatabase cin = None \<and> in_userSalt cin = None
              \<longrightarrow> \<not> useDatabase (config s0) \<and> cfg_userSalt (config s0) = ''0'')"
proof -
  from processJWT_success_salt [OF assms(4)] assms(1)
  have one: "userSalt s1' = Some (res_userSalt res1)"
    "res_userSalt res1 = cfg_userSalt (config s1)"
    by (auto simp: resolveSalt_no_database)
  from processJWT_success_salt [OF assms(5)] assms(2)
  have two: "userSalt s2' = Some (res_userSalt res2)"
    "res_userSalt res2 = cfg_userSalt (config s2)"
    by (auto simp: resolveSalt_no_database)
  show ?thesis
    using one two assms(3) new_ZkLogin_defaults [of db0 cin s0] by auto
qed

theorem processJWT_configured_salt_witness:
  "\<not> useDatabase (config prepared_session)
   \<and> res_subject (projr (fst (processJWT sample_env sample_salt_world prepared_session
        token_user123))) = Val (JStr ''user123'')
   \<and> res_subject (projr (fst (processJWT sample_env sample_salt_world prepared_session
        token_user456))) = Val (JStr ''user456'')
   \<and> userSalt (snd (processJWT sample_env sample_salt_world prepared_session token_user123))
       = Some ''0''
   \<and> userSalt (snd (processJWT sample_env sample_salt_world prepared_session token_user456))
       = Some ''0''
   \<and> new_ZkLogin [] sample_config_in = Inr created_session
   \<and> \<not> useDatabase (config created_session) \<and> cfg_userSalt (config created_session) = ''0''"
  using processJWT_configured_salt
    [OF prepared_session_fields(6) prepared_session_fields(6) refl
        sample_process_user123 sample_process_user456, of "[]" sample_config_in created_session]
    created_session_run
  by (simp add: sample_process_user123 sample_process_user456 prepared_session_fields
      sample_config_in_def)

section \<open>The state snapshot\<close>

lemma getState_prepared_session: "getState sample_env prepared_session = Inr prepared_snapshot"
  by (simp add: getState_def prepared_session_def keyed_session_def created_session_def
      sample_config_def sample_keys_def sample_env_def prepared_snapshot_def
      dec_int_def dec_nat.simps digit_char_def)

text \<open>
  Claim C3, as stated, fails: the snapshot has a member \<open>randomness\<close> holding
  \<^verbatim>\<open>this.randomness.toString()\<close>. The prepared sample session, reached by the
  constructor, key generation and \<open>prepareForJWT\<close>, has randomness 12345 and its snapshot
  shows "12345".
\<close>

theorem getState_shows_randomness:
  "new_ZkLogin [] sample_config_in = Inr created_session
   \<and> snd (generateEphemeralKeyPair sample_env sample_keys created_session) = keyed_session
   \<and> snd (prepareForJWT sample_env sample_prep keyed_session None None None) = prepared_session
   \<and> randomness prepared_session = Some (RBig 12345)
   \<and> getState sample_env prepared_session = Inr prepared_snapshot
   \<and> st_randomness prepared_snapshot = Some ''12345''"
  by (simp add: getState_prepared_session prepared_session_fields prepared_snapshot_def
      created_session_run keyed_session_run prepared_session_run)

text \<open>
  Claim C3, amended. The snapshot never depends on the ephemeral private key: two
  sessions that differ only in the private key have the same snapshot. It reports which
  fields are populated, and it does contain the randomness, rendered as a string,
  whenever the randomness is set (and truthy).
\<close>

theorem getState_hides_private_key:
  "getState E (s\<lparr>ephemeralKeyPair := Some (kp\<lparr>secretKey := k1\<rparr>)\<rparr>)
     = getState E (s\<lparr>ephemeralKeyPair := Some (kp\<lparr>secretKey := k2\<rparr>)\<rparr>)
   \<and> (getState E s = Inr snap \<longrightarrow>
        hasEphemeralKeyPair snap = (ephemeralKeyPair s \<noteq> None)
        \<and> hasRandomness snap = (\<exists>r. randomness s = Some r \<and> truthy_rand r)
        \<and> hasNonce snap = truthy_str (nonce s)
        \<and> hasJWT snap = truthy_str (jwt s)
        \<and> hasDecodedJWT snap = (decodedJWT s \<noteq> None)
        \<and> hasUserAddress snap = truthy_str (userAddress s)
        \<and> hasZkLoginSignature snap = truthy_str (zkLoginSignature s)
        \<and> (\<forall>r. randomness s = Some r \<and> truthy_rand r
              \<longrightarrow> st_randomness snap = Some (rand_toString r)))"
proof -
  have "getState E (s\<lparr>ephemeralKeyPair := Some (kp\<lparr>secretKey := k1\<rparr>)\<rparr>)
          = getState E (s\<lparr>ephemeralKeyPair := Some (kp\<lparr>secretKey := k2\<rparr>)\<rparr>)"
    by (simp add: getState_def getJWTClaims_def cong: sum.case_cong option.case_cong if_cong)
  moreover have "getState E s = Inr snap \<longrightarrow>
        hasEphemeralKeyPair snap = (ephemeralKeyPair s \<noteq> None)
        \<and> hasRandomness snap = (\<exists>r. randomness s = Some r \<and> truthy_rand r)
        \<and> hasNonce snap = truthy_str (nonce s)
        \<and> hasJWT snap = truthy_str (jwt s)
        \<and> hasDecodedJWT snap = (decodedJWT s \<noteq> None)
        \<and> hasUserAddress snap = truthy_str (userAddress s)
        \<and> hasZkLoginSignature snap = truthy_str (zkLoginSignature s)
        \<and> (\<forall>r. randomness s = Some r \<and> truthy_rand r
              \<longrightarrow> st_randomness snap = Some (rand_toString r))"
    by (cases "randomness s") (auto simp: getState_def split: sum.splits if_splits)
  ultimately show ?thesis by blast
qed

theorem getState_hides_private_key_witness:
  "getState sample_env
      (prepared_session\<lparr>ephemeralKeyPair := Some \<lparr>secretKey = ''sk-ed'', publicKey = ''pk-ed''\<rparr>\<rparr>)
     = getState sample_env
         (prepared_session\<lparr>ephemeralKeyPair := Some \<lparr>secretKey = ''other'', publicKey = ''pk-ed''\<rparr>\<rparr>)
   \<and> getState sample_env prepared_session = Inr prepared_snapshot
   \<and> hasEphemeralKeyPair prepared_snapshot \<and> hasRandomness prepared_snapshot
   \<and> hasNonce prepared_snapshot \<and> \<not> hasJWT prepared_snapshot
   \<and> st_randomness prepared_snapshot = Some (rand_toString (RBig 12345))"
  using getState_hides_private_key
    [where E = sample_env and s = prepared_session
       and kp = "\<lparr>secretKey = ''sk-ed'', publicKey = ''pk-ed''\<rparr>"
       and ?k1.0 = "''sk-ed''" and ?k2.0 = "''other''" and snap = prepared_snapshot]
    getState_prepared_session
  by (simp add: prepared_session_fields prepared_snapshot_def)

section \<open>The nonce check\<close>

lemma getState_after_stored_token:
  assumes "decodeJWT E tok = Inr d" and "dj_header d \<noteq> JNull" and "dj_payload d \<noteq> JNull"
  shows "\<exists>snap. getState E (s\<lparr>jwt := Some tok, decodedJWT := Some d\<rparr>) = Inr snap
           \<and> hasJWT snap \<and> hasDecodedJWT snap"
proof -
  have "tok \<noteq> []"
    using assms(1) by (intro isValidJWT_not_empty decodeJWT_Inr_valid)
  then show ?thesis
    using assms by (simp add: getState_def getJWTClaims_def)
qed

lemma getState_null_header:
  assumes "decodeJWT E tok = Inr d" and "dj_header d = JNull"
  shows "getState E (s\<lparr>jwt := Some tok, decodedJWT := Some d\<rparr>) = Inl TypeError"
proof -
  have "tok \<noteq> []"
    using assms(1) by (intro isValidJWT_not_empty decodeJWT_Inr_valid)
  then show ?thesis
    using assms by (simp add: getState_def getJWTClaims_def)
qed

text \<open>
  The failing step is not atomic, and the snapshot shows it for every token whose
  header is not \<^verbatim>\<open>null\<close>. For a
  prepared session and a token that decodes to a payload other than \<^verbatim>\<open>null\<close> whose nonce
  differs from the session's, \<open>processJWT\<close> fails after having stored the token and its
  decoding: \<open>jwt\<close> and \<open>decodedJWT\<close> hold them, \<open>userAddress\<close> and \<open>userSalt\<close> are what
  they were, and a following \<open>getState\<close> reports \<open>hasJWT\<close> and \<open>hasDecodedJWT\<close>.
\<close>

lemma processJWT_mismatch_not_atomic:
  assumes "is_prepared s" and "nonce s = Some n" and "decodeJWT E tok = Inr d"
    and "dj_payload d \<noteq> JNull"
    and "get_prop (dj_payload d) ''nonce'' \<noteq> Val (JStr n)"
    and "processJWT E W s tok = (r, s')"
  shows "(\<exists>e. r = Inl (FailedToProcessJWT e))
         \<and> jwt s' = Some tok \<and> decodedJWT s' = Some d
         \<and> userAddress s' = userAddress s \<and> userSalt s' = userSalt s
         \<and> (dj_header d \<noteq> JNull \<longrightarrow>
              (\<exists>snap. getState E s' = Inr snap \<and> hasJWT snap \<and> hasDecodedJWT snap))"
proof -
  have run: "\<exists>e. r = Inl (FailedToProcessJWT e)"
    "s' = s\<lparr>jwt := Some tok, decodedJWT := Some d\<rparr>"
    using processJWT_nonce_mismatch [OF assms(1-5), of W] assms(6) by simp_all
  show ?thesis
    using run getState_after_stored_token [OF assms(3) _ assms(4), of s] by simp
qed

text \<open>
  Claim C9 at the token \<open>token_null_header\<close>, where the code departs from it. The token
  has three segments and decodes (its header segment is the base64 text of \<^verbatim>\<open>null\<close>);
  its payload nonce \<^verbatim>\<open>n2\<close> differs from the session's \<^verbatim>\<open>n1\<close>. \<open>processJWT\<close> fails with
  the nonce mismatch and has stored the token and its decoding, as the claim says; the
  following \<open>getState\<close> does not report \<open>hasJWT\<close> and \<open>hasDecodedJWT\<close>: it throws a
  TypeError on the unguarded \<^verbatim>\<open>decoded.header.alg\<close> in \<^verbatim>\<open>getJWTClaims\<close>.
\<close>

theorem processJWT_null_header_getState:
  "is_prepared prepared_session
   \<and> isValidJWT token_null_header
   \<and> decodeJWT sample_env token_null_header
       = Inr (decoded_of seg_null JNull seg_other_nonce (payload_json ''n2'' ''user123''))
   \<and> processJWT sample_env sample_salt_world prepared_session token_null_header
       = (Inl (FailedToProcessJWT (NonceMismatch ''n1'' (Val (JStr ''n2'')))),
          prepared_session
            \<lparr>jwt := Some token_null_header,
             decodedJWT :=
               Some (decoded_of seg_null JNull seg_other_nonce (payload_json ''n2'' ''user123''))\<rparr>)
   \<and> getState sample_env
        (snd (processJWT sample_env sample_salt_world prepared_session token_null_header))
       = Inl TypeError"
proof -
  let ?d = "decoded_of seg_null JNull seg_other_nonce (payload_json ''n2'' ''user123'')"
  have run: "processJWT sample_env sample_salt_world prepared_session token_null_header
       = (Inl (FailedToProcessJWT (NonceMismatch ''n1'' (Val (JStr ''n2'')))),
          prepared_session\<lparr>jwt := Some token_null_header, decodedJWT := Some ?d\<rparr>)"
    using processJWT_nonce_mismatch
      [OF prepared_session_fields(1) prepared_session_fields(2) decode_token_null_header,
       of sample_salt_world]
    by (simp add: payload_json_props payload_json_def)
  have "getState sample_env
          (prepared_session\<lparr>jwt := Some token_null_header, decodedJWT := Some ?d\<rparr>)
        = Inl TypeError"
    by (rule getState_null_header [OF decode_token_null_header])
      (simp add: payload_json_props)
  with run show ?thesis
    by (simp add: prepared_session_fields decode_token_null_header
        decodeJWT_Inr_valid [OF decode_token_null_header])
qed

theorem processJWT_null_header_getState_witness:
  "fst (processJWT sample_env sample_salt_world prepared_session token_null_header)
     = Inl (FailedToProcessJWT (NonceMismatch ''n1'' (Val (JStr ''n2''))))
   \<and> jwt (snd (processJWT sample_env sample_salt_world prepared_session token_null_header))
       = Some token_null_header
   \<and> getState sample_env
        (snd (processJWT sample_env sample_salt_world prepared_session token_null_header))
       = Inl TypeError"
proof -
  note run = processJWT_null_header_getState
  from run have "processJWT sample_env sample_salt_world prepared_session token_null_header
       = (Inl (FailedToProcessJWT (NonceMismatch ''n1'' (Val (JStr ''n2'')))),
          prepared_session
            \<lparr>jwt := Some token_null_header,
             decodedJWT :=
               Some (decoded_of seg_null JNull seg_other_nonce (payload_json ''n2'' ''user123''))\<rparr>)"
    by blast
  moreover from run have "getState sample_env
        (snd (processJWT sample_env sample_salt_world prepared_session token_null_header))
       = Inl TypeError"
    by blast
  ultimately show ?thesis by simp
qed

text \<open>
  Two inputs on which \<open>processJWT\<close> fails with a TypeError before the nonce mismatch can
  be reported: a payload that is \<^verbatim>\<open>null\<close> has no \<^verbatim>\<open>nonce\<close> to read, and the nonce
  \<^verbatim>\<open>{"toString":null}\<close> cannot be put into the message of the mismatch error.
\<close>

lemma processJWT_null_payload_run:
  "fst (processJWT sample_env sample_salt_world prepared_session token_null_payload)
     = Inl (FailedToProcessJWT TypeError)"
  using processJWT_null_payload
    [OF prepared_session_fields(1) prepared_session_fields(2) decode_token_null_payload,
     of sample_salt_world]
  by (simp add: payload_json_props)

lemma processJWT_unprintable_nonce_run:
  "fst (processJWT sample_env sample_salt_world prepared_session token_unprintable_nonce)
     = Inl (FailedToProcessJWT TypeError)"
  using processJWT_nonce_mismatch
    [OF prepared_session_fields(1) prepared_session_fields(2) decode_token_unprintable_nonce,
     of sample_salt_world]
  by (simp add: payload_json_props)





end
